theory Spec2Isabelle
  imports Complex_Main "HOL-Library.Char_ord" "HOL-Library.List_Lexorder"
begin

section \<open>JavaScript values and built-ins used by ai-analyzer.js\<close>

text \<open>
  The script \<^verbatim>\<open>.github/scripts/ai-analyzer.js\<close> is embedded function by function.
  JavaScript numbers are IEEE 754 doubles. A pass rate is the real number that its double
  denotes, and every addition, subtraction, division, squaring and square root of the script
  on pass rates is followed by the rounding \<open>fl\<close> to the nearest double, as the double
  operation does. Counts (\<^verbatim>\<open>total_tests\<close>, \<^verbatim>\<open>passed\<close>, \<^verbatim>\<open>failed\<close>) are integers.
  A field that is absent from a parsed \<^verbatim>\<open>metadata.json\<close> (the value \<^verbatim>\<open>undefined\<close>) is
  \<^const>\<open>None\<close>.
\<close>

subsection \<open>Truthiness and the \<^verbatim>\<open>||\<close> operator\<close>

text \<open>\<^verbatim>\<open>x || d\<close>: the value \<^verbatim>\<open>x\<close> unless it is falsy (\<^verbatim>\<open>undefined\<close>, \<^verbatim>\<open>0\<close>, \<^verbatim>\<open>''\<close>).\<close>

definition num_or :: "real option \<Rightarrow> real \<Rightarrow> real" where
  "num_or x d = (case x of None \<Rightarrow> d | Some v \<Rightarrow> if v = 0 then d else v)"

definition int_or :: "int option \<Rightarrow> int \<Rightarrow> int" where
  "int_or x d = (case x of None \<Rightarrow> d | Some v \<Rightarrow> if v = 0 then d else v)"

definition str_or :: "string option \<Rightarrow> string \<Rightarrow> string" where
  "str_or x d = (case x of None \<Rightarrow> d | Some v \<Rightarrow> if v = [] then d else v)"

text \<open>\<^verbatim>\<open>!x\<close> on an optional string (a command-line option or an environment variable).\<close>

definition falsy :: "string option \<Rightarrow> bool" where
  "falsy x = (case x of None \<Rightarrow> True | Some v \<Rightarrow> v = [])"

subsection \<open>Double arithmetic\<close>

text \<open>
  The spacing of the doubles around a magnitude \<open>a\<close>: \<open>2\<^sup>e\<^sup>-\<^sup>5\<^sup>2\<close> for \<open>a\<close> in the binade
  from \<open>2\<^sup>e\<close>, found by halving (\<open>a \<ge> 1\<close>) or doubling (\<open>a < 1\<close>) \<open>a\<close> until it lies between
  1 and 2. Below \<open>2\<^sup>-\<^sup>1\<^sup>0\<^sup>2\<^sup>2\<close> the doubles are subnormal and their spacing stays \<open>2\<^sup>-\<^sup>1\<^sup>0\<^sup>7\<^sup>4\<close>; the
  top binade starts at \<open>2\<^sup>1\<^sup>0\<^sup>2\<^sup>3\<close>.
\<close>

fun ulp_up :: "nat \<Rightarrow> real \<Rightarrow> real \<Rightarrow> real" where
  "ulp_up 0 a u = u"
| "ulp_up (Suc k) a u = (if a < 2 then u else ulp_up k (a / 2) (2 * u))"

fun ulp_down :: "nat \<Rightarrow> real \<Rightarrow> real \<Rightarrow> real" where
  "ulp_down 0 a u = u"
| "ulp_down (Suc k) a u = (if 1 \<le> a then u else ulp_down k (2 * a) (u / 2))"

definition ulp :: "real \<Rightarrow> real" where
  "ulp a = (if 1 \<le> a then ulp_up 1023 a (1 / 2 ^ 52) else ulp_down 1022 a (1 / 2 ^ 52))"

text \<open>The integer nearest to \<open>q\<close>, the even one when \<open>q\<close> lies halfway between two.\<close>

definition round_half_even :: "real \<Rightarrow> int" where
  "round_half_even q =
     (let f = \<lfloor>q\<rfloor>; d = q - of_int f
      in if d < 1 / 2 then f else if 1 / 2 < d then f + 1 else if even f then f else f + 1)"

text \<open>
  The double nearest to the real \<open>x\<close> (round to nearest, ties to even), which is what an
  arithmetic operation on doubles returns for the exact result \<open>x\<close>. Infinities and
  \<^verbatim>\<open>NaN\<close> are not represented: a result of magnitude \<open>2\<^sup>1\<^sup>0\<^sup>2\<^sup>4\<close> or more, which JavaScript turns
  into \<^verbatim>\<open>Infinity\<close>, is outside the model, and so is the sign of zero.
\<close>

definition fl :: "real \<Rightarrow> real" where
  "fl x = (if x = 0 then 0 else of_int (round_half_even (x / ulp \<bar>x\<bar>)) * ulp \<bar>x\<bar>)"

text \<open>
  The two constants of the error of one rounding: half the relative spacing of the
  doubles, and half the spacing of the subnormal ones.
\<close>

definition roundoff :: real where
  "roundoff = 1 / 2 ^ 53"

definition underflow :: real where
  "underflow = 1 / 2 ^ 1075"

subsection \<open>Number to string\<close>

definition digit_char :: "nat \<Rightarrow> char" where
  "digit_char d = ''0123456789'' ! (d mod 10)"

fun decimal_digits :: "nat \<Rightarrow> string" where
  "decimal_digits n =
     (if n < 10 then [digit_char n] else decimal_digits (n div 10) @ [digit_char n])"

declare decimal_digits.simps [simp del]

text \<open>\<^verbatim>\<open>String(i)\<close> for an integral number.\<close>

definition number_to_string :: "int \<Rightarrow> string" where
  "number_to_string i =
     (if 0 \<le> i then decimal_digits (nat i) else CHR ''-'' # decimal_digits (nat \<bar>i\<bar>))"

text \<open>\<^verbatim>\<open>`${x}`\<close> for a count that may be absent.\<close>

definition string_of_count :: "int option \<Rightarrow> string" where
  "string_of_count x = (case x of None \<Rightarrow> ''undefined'' | Some v \<Rightarrow> number_to_string v)"

text \<open>
  \<^verbatim>\<open>x.toFixed(1)\<close>: the sign, then the integer \<open>n\<close> for which \<open>n / 10\<close> is closest to
  \<open>\<bar>x\<bar>\<close> (the larger one on a tie), written with one digit after the point. (Above
  \<open>10\<^sup>2\<^sup>1\<close> JavaScript switches to exponent notation; pass rates are far below.)
\<close>

definition toFixed1 :: "real \<Rightarrow> string" where
  "toFixed1 x =
     (let s = (if x < 0 then ''-'' else '''');
          n = nat \<lfloor>\<bar>x\<bar> * 10 + 1 / 2\<rfloor>
      in s @ decimal_digits (n div 10) @ ''.'' @ [digit_char (n mod 10)])"

subsection \<open>\<^verbatim>\<open>String.prototype.replace\<close> with a string pattern\<close>

text \<open>The index of the first occurrence of \<open>pat\<close> in \<open>s\<close>, if any.\<close>

fun find_sub :: "string \<Rightarrow> string \<Rightarrow> nat option" where
  "find_sub pat [] = (if pat = [] then Some 0 else None)"
| "find_sub pat (c # s) =
     (if take (length pat) (c # s) = pat then Some 0 else map_option Suc (find_sub pat s))"

text \<open>
  The replacement text is not inserted literally: \<^verbatim>\<open>$$\<close> stands for a dollar sign,
  \<^verbatim>\<open>$&\<close> for the matched text, \<^verbatim>\<open>$`\<close> for the text before the match and \<^verbatim>\<open>$'\<close> for
  the text after it. A string pattern has no capture groups, so any other \<^verbatim>\<open>$\<close> is
  literal.
\<close>

fun getSubstitution :: "string \<Rightarrow> string \<Rightarrow> string \<Rightarrow> string \<Rightarrow> string" where
  "getSubstitution matched preceding following [] = []"
| "getSubstitution matched preceding following [c] = [c]"
| "getSubstitution matched preceding following (c # d # t) =
     (if c = CHR ''$'' \<and> d = CHR ''$'' then CHR ''$'' # getSubstitution matched preceding following t
      else if c = CHR ''$'' \<and> d = CHR ''&'' then matched @ getSubstitution matched preceding following t
      else if c = CHR ''$'' \<and> d = CHR 0x60 then preceding @ getSubstitution matched preceding following t
      else if c = CHR ''$'' \<and> d = CHR 0x27 then following @ getSubstitution matched preceding following t
      else c # getSubstitution matched preceding following (d # t))"

text \<open>\<^verbatim>\<open>s.replace(pat, rep)\<close>: only the first occurrence of \<open>pat\<close> is replaced.\<close>

definition js_replace :: "string \<Rightarrow> string \<Rightarrow> string \<Rightarrow> string" where
  "js_replace s pat rep =
     (case find_sub pat s of
        None \<Rightarrow> s
      | Some i \<Rightarrow>
          (let preceding = take i s; following = drop (i + length pat) s
           in preceding @ getSubstitution pat preceding following rep @ following))"

text \<open>A chain \<^verbatim>\<open>s.replace(k1, v1).replace(k2, v2)...\<close>, the pairs in the order of the calls.\<close>

definition replace_chain :: "string \<Rightarrow> (string \<times> string) list \<Rightarrow> string" where
  "replace_chain s kvs = foldl (\<lambda>acc (k, v). js_replace acc k v) s kvs"

subsection \<open>Arrays and strings\<close>

text \<open>\<^verbatim>\<open>xs.indexOf(x)\<close>, \<open>-1\<close> when \<open>x\<close> is not an element.\<close>

fun indexOf :: "'a list \<Rightarrow> 'a \<Rightarrow> int" where
  "indexOf [] x = - 1"
| "indexOf (y # ys) x =
     (if y = x then 0 else (let i = indexOf ys x in if i < 0 then - 1 else i + 1))"

text \<open>\<^verbatim>\<open>xs.join(sep)\<close>\<close>

fun join :: "string \<Rightarrow> string list \<Rightarrow> string" where
  "join sep [] = []"
| "join sep [x] = x"
| "join sep (x # y # ys) = x @ sep @ join sep (y # ys)"

definition newline :: string where
  "newline = [CHR 0x0A]"

subsection \<open>Dates\<close>

text \<open>
  A \<^verbatim>\<open>Date\<close> is its time value: milliseconds since 1970-01-01T00:00:00Z, or \<^const>\<open>None\<close>
  for an invalid date (time value \<^verbatim>\<open>NaN\<close>).
\<close>

definition msPerDay :: int where
  "msPerDay = 24 * 60 * 60 * 1000"

text \<open>\<^verbatim>\<open>new Date(t)\<close> for a number \<open>t\<close>: invalid beyond 100 million days from the epoch.\<close>

definition timeClip :: "int \<Rightarrow> int option" where
  "timeClip t = (if \<bar>t\<bar> \<le> 8640000000000000 then Some t else None)"

text \<open>Days from 1970-01-01 to the first day of month \<open>m\<close> of year \<open>y\<close> (Gregorian).\<close>

definition days_from_civil :: "int \<Rightarrow> int \<Rightarrow> int" where
  "days_from_civil y m =
     (let y' = (if m \<le> 2 then y - 1 else y);
          era = y' div 400;
          yoe = y' - era * 400;
          doy = (153 * (if m > 2 then m - 3 else m + 9) + 2) div 5;
          doe = yoe * 365 + yoe div 4 - yoe div 100 + doy
      in era * 146097 + doe - 719468)"

definition is_digit :: "char \<Rightarrow> bool" where
  "is_digit c = (c \<in> set ''0123456789'')"

definition digit_val :: "char \<Rightarrow> int" where
  "digit_val c = int (of_char c) - 48"

definition int_of_digits :: "string \<Rightarrow> int" where
  "int_of_digits s = foldl (\<lambda>a c. 10 * a + digit_val c) 0 s"

text \<open>
  \<^verbatim>\<open>new Date(`${year}-${month}-${day}`)\<close>. A string of the form \<^verbatim>\<open>YYYY-MM-DD\<close> is a
  date-only ISO string and denotes midnight UTC of that day. Node's parser accepts a month
  from 01 to 12 and a day from 01 to 31, a day beyond the end of the month running over
  into the next month. Any other string is taken as an invalid date (the fallback parser
  for non-ISO strings is not modelled).
\<close>

definition newDate :: "string \<Rightarrow> string \<Rightarrow> string \<Rightarrow> int option" where
  "newDate year month day =
     (if length year = 4 \<and> length month = 2 \<and> length day = 2
         \<and> list_all is_digit (year @ month @ day)
         \<and> 1 \<le> int_of_digits month \<and> int_of_digits month \<le> 12
         \<and> 1 \<le> int_of_digits day \<and> int_of_digits day \<le> 31
      then Some ((days_from_civil (int_of_digits year) (int_of_digits month)
                   + int_of_digits day - 1) * msPerDay)
      else None)"

text \<open>\<^verbatim>\<open>a >= b\<close> on two dates: false as soon as one is invalid.\<close>

definition date_ge :: "int option \<Rightarrow> int option \<Rightarrow> bool" where
  "date_ge a b = (case a of None \<Rightarrow> False | Some x \<Rightarrow> (case b of None \<Rightarrow> False | Some y \<Rightarrow> y \<le> x))"

section \<open>Data model\<close>

text \<open>
  One parsed \<^verbatim>\<open>metadata.json\<close>. The producing projects always write the project and the
  timestamp; every other field may be absent, and a field that is present has the type the
  producers give it (a number for the pass rate and the counts, a string or a list of
  strings otherwise).
\<close>

record metadata =
  project_name :: string
  timestamp :: string
  run_number :: "string option"
  branch :: "string option"
  status :: "string option"
  total_tests :: "int option"
  passed :: "int option"
  failed :: "int option"
  pass_rate :: "real option"
  failed_tests :: "string list option"

text \<open>\<^verbatim>\<open>r.pass_rate || 0\<close>\<close>

definition rate :: "metadata \<Rightarrow> real" where
  "rate r = num_or (pass_rate r) 0"

text \<open>
  The file \<^verbatim>\<open>metadata.json\<close> of one report directory: absent, present but rejected by
  \<^verbatim>\<open>JSON.parse\<close> (or not readable), or parsed.
\<close>

datatype metafile = Missing | Unparseable | Parsed metadata

text \<open>An entry of \<^verbatim>\<open>reports/{project}\<close>: a plain file, or a directory with its metadata file.\<close>

datatype node = RegularFile | Directory metafile

text \<open>What \<^verbatim>\<open>fs.readdirSync\<close> returns for a project directory, with each name's node.\<close>

type_synonym listing = "(string \<times> node) list"

text \<open>
  The templates of \<^verbatim>\<open>config/ai-prompts.yml\<close>. The file is not part of the script; its
  four strings are parameters.
\<close>

record prompts =
  single_system_prompt :: string
  single_user_prompt_template :: string
  trend_system_prompt :: string
  trend_user_prompt_template :: string

text \<open>
  The answer of the endpoint to the one request: a transport error, or a status code with
  the text \<^verbatim>\<open>response.content[0].text\<close> decoded from the body (\<^const>\<open>None\<close> when decoding
  throws).
\<close>

datatype api_reply = RequestError | Response nat "string option"

text \<open>
  The command-line options after the loop of lines 7 to 12. \<open>opt_period\<close> is the value
  of \<^verbatim>\<open>parseInt(period)\<close>, \<^const>\<open>None\<close> standing for \<^verbatim>\<open>NaN\<close>.
\<close>

record options =
  opt_project :: "string option"
  opt_timestamp :: "string option"
  opt_type :: "string option"
  opt_period :: "int option"

text \<open>
  Everything the script reads from outside: the prompt configuration (\<^const>\<open>None\<close> when
  loading it throws), the report tree, the existing directories under \<^verbatim>\<open>analysis/\<close>, the
  environment variable \<^verbatim>\<open>ANTHROPIC_API_KEY\<close>, the endpoint's answer and the clock.
\<close>

record world =
  promptsConfig :: "prompts option"
  reports :: "string \<rightharpoonup> listing"
  analysisDirs :: "string set"
  apiKey :: "string option"
  apiReply :: api_reply
  now :: int

text \<open>
  The effects the script has on the outside, in the order it performs them: the creation
  of a directory, the request to the endpoint with its system and user prompts, and the
  writing of a file, each file system effect with the segments of its path. The content of
  the written files and the console output are not recorded.
\<close>

datatype effect =
    Mkdir "string list"
  | HttpsRequest string string
  | WriteFile "string list"

text \<open>Why a run stops with exit code 1.\<close>

datatype error =
    UsageError
  | ConfigError
  | UnknownType
  | MissingTimestamp
  | MetadataNotFound
  | ProjectDirNotFound
  | NoReports
  | EmptyWindow
  | AuthError
  | NetworkError
  | UpstreamError
  | ParseError
  | JsTypeError
  | JsSyntaxError

definition REPORTS_DIR :: string where
  "REPORTS_DIR = ''reports''"

definition ANALYSIS_DIR :: string where
  "ANALYSIS_DIR = ''analysis''"

section \<open>callAnthropicAPI (lines 35 to 96)\<close>

definition callAnthropicAPI :: "world \<Rightarrow> string \<Rightarrow> string \<Rightarrow> effect list \<times> (error + string)" where
  "callAnthropicAPI w systemPrompt userPrompt =
     (if falsy (apiKey w) then ([], Inl AuthError)
      else ([HttpsRequest systemPrompt userPrompt],
            (case apiReply w of
               RequestError \<Rightarrow> Inl NetworkError
             | Response statusCode body \<Rightarrow>
                 if statusCode \<noteq> 200 then Inl UpstreamError
                 else (case body of None \<Rightarrow> Inl ParseError | Some text \<Rightarrow> Inr text))))"

section \<open>analyzeSingleReport (lines 99 to 199)\<close>

text \<open>
  Lines 116 to 128: the directory names, sorted and reversed (newest first), and the
  metadata of the report to compare with. The default \<^verbatim>\<open>sort()\<close> orders strings by their
  code units, here the lexicographic order of the characters. \<^verbatim>\<open>allReports[currentIndex + 1]\<close> is
  \<^verbatim>\<open>undefined\<close> past the end of the array, on which \<^verbatim>\<open>path.join\<close> throws a TypeError;
  \<^verbatim>\<open>JSON.parse\<close> is not guarded here, so a corrupt file throws too.
\<close>

definition isDirectory :: "node \<Rightarrow> bool" where
  "isDirectory n = (case n of RegularFile \<Rightarrow> False | Directory f \<Rightarrow> True)"

definition allReportNames :: "listing \<Rightarrow> string list" where
  "allReportNames entries = rev (sort (map fst (filter (\<lambda>(name, n). isDirectory n) entries)))"

definition previousMetadata :: "listing \<Rightarrow> string \<Rightarrow> error + metadata option" where
  "previousMetadata entries ts =
     (let allReports = allReportNames entries;
          currentIndex = indexOf allReports ts
      in if currentIndex > 0 then
           (if nat (currentIndex + 1) < length allReports then
              (case map_of entries (allReports ! nat (currentIndex + 1)) of
                 Some (Directory (Parsed m)) \<Rightarrow> Inr (Some m)
               | Some (Directory Unparseable) \<Rightarrow> Inl JsSyntaxError
               | _ \<Rightarrow> Inr None)
            else Inl JsTypeError)
         else Inr None)"

text \<open>Lines 130 and 131; the subtraction rounds.\<close>

definition previousPassRate :: "metadata option \<Rightarrow> real" where
  "previousPassRate pm = (case pm of None \<Rightarrow> 0 | Some m \<Rightarrow> num_or (pass_rate m) 0)"

definition passRateChange :: "metadata \<Rightarrow> metadata option \<Rightarrow> real" where
  "passRateChange m pm = fl (num_or (pass_rate m) 0 - previousPassRate pm)"

text \<open>Lines 134 to 143.\<close>

definition failedTestsDetails :: "metadata \<Rightarrow> string" where
  "failedTestsDetails m =
     (case failed m of
        None \<Rightarrow> []
      | Some f \<Rightarrow>
          if f > 0 then
            newline @ ''Failed Tests: '' @ number_to_string f @ newline
            @ (case failed_tests m of
                 None \<Rightarrow> []
               | Some ts \<Rightarrow>
                   join newline (map (\<lambda>t. ''- '' @ t) (take 5 ts))
                   @ (if length ts > 5
                      then newline @ ''... and '' @ decimal_digits (length ts - 5) @ '' more''
                      else []))
          else [])"

text \<open>Line 156: the text put in place of \<^verbatim>\<open>{pass_rate_change}\<close>.\<close>

definition passRateChangeText :: "real \<Rightarrow> string" where
  "passRateChangeText change = (if change > 0 then ''+'' else []) @ toFixed1 change"

text \<open>Lines 146 to 157.\<close>

definition singleUserPrompt :: "string \<Rightarrow> string \<Rightarrow> string \<Rightarrow> metadata \<Rightarrow> metadata option \<Rightarrow> string" where
  "singleUserPrompt template project ts m pm =
     replace_chain template
       [(''{project}'', project),
        (''{timestamp}'', ts),
        (''{run_number}'', str_or (run_number m) ''N/A''),
        (''{branch}'', str_or (branch m) ''N/A''),
        (''{total_tests}'', number_to_string (int_or (total_tests m) 0)),
        (''{passed}'', number_to_string (int_or (passed m) 0)),
        (''{failed}'', number_to_string (int_or (failed m) 0)),
        (''{pass_rate}'', toFixed1 (num_or (pass_rate m) 0)),
        (''{previous_pass_rate}'', toFixed1 (previousPassRate pm)),
        (''{pass_rate_change}'', passRateChangeText (passRateChange m pm)),
        (''{failed_tests_details}'', failedTestsDetails m)]"

definition analyzeSingleReport :: "string \<Rightarrow> options \<Rightarrow> prompts \<Rightarrow> world \<Rightarrow> effect list \<times> (error + unit)" where
  "analyzeSingleReport project opts cfg w =
     (case opt_timestamp opts of
        None \<Rightarrow> ([], Inl MissingTimestamp)
      | Some ts \<Rightarrow>
          if ts = [] then ([], Inl MissingTimestamp)
          else
            (case reports w project of
               None \<Rightarrow> ([], Inl MetadataNotFound)
             | Some entries \<Rightarrow>
                 (case map_of entries ts of
                    Some (Directory (Parsed m)) \<Rightarrow>
                      (case previousMetadata entries ts of
                         Inl e \<Rightarrow> ([], Inl e)
                       | Inr pm \<Rightarrow>
                           (let userPrompt =
                                  singleUserPrompt (single_user_prompt_template cfg) project ts m pm;
                                (evs, res) = callAnthropicAPI w (single_system_prompt cfg) userPrompt
                            in case res of
                                 Inl e \<Rightarrow> (evs, Inl e)
                               | Inr analysis \<Rightarrow>
                                   (evs @ [WriteFile [ANALYSIS_DIR, project, ''latest-analysis.md''],
                                           WriteFile [ANALYSIS_DIR, project, ''insights.json'']],
                                    Inr ())))
                  | Some (Directory Unparseable) \<Rightarrow> ([], Inl JsSyntaxError)
                  | _ \<Rightarrow> ([], Inl MetadataNotFound))))"

section \<open>analyzeTrend (lines 202 to 311)\<close>

subsection \<open>Statistics (lines 250 to 263)\<close>

text \<open>
  \<^verbatim>\<open>passRates.reduce((a, b) => a + b, 0) / passRates.length\<close>: each addition and the
  division round. The length is an integer and exact.
\<close>

definition avgPassRate :: "real list \<Rightarrow> real" where
  "avgPassRate passRates =
     fl (foldl (\<lambda>a b. fl (a + b)) 0 passRates / real (length passRates))"

text \<open>\<^verbatim>\<open>[...passRates].sort((a, b) => a - b)\<close>\<close>

definition sortedRates :: "real list \<Rightarrow> real list" where
  "sortedRates passRates = sort passRates"

text \<open>\<^verbatim>\<open>sortedRates[Math.floor(sortedRates.length / 2)]\<close>\<close>

definition medianPassRate :: "real list \<Rightarrow> real" where
  "medianPassRate passRates = sortedRates passRates ! (length (sortedRates passRates) div 2)"

text \<open>
  \<^verbatim>\<open>Math.max(...passRates)\<close> and \<^verbatim>\<open>Math.min(...passRates)\<close>. The script reaches them
  with a non-empty list only (line 245 exits on an empty window); the first equations are
  never used.
\<close>

fun maxPassRate :: "real list \<Rightarrow> real" where
  "maxPassRate [] = 0"
| "maxPassRate (x # xs) = foldl max x xs"

fun minPassRate :: "real list \<Rightarrow> real" where
  "minPassRate [] = 0"
| "minPassRate (x # xs) = foldl min x xs"

text \<open>
  \<^verbatim>\<open>passRates.reduce((sum, rate) => sum + Math.pow(rate - avgPassRate, 2), 0) / passRates.length\<close>:
  the subtraction, the square, each addition and the division round. (\<^verbatim>\<open>Math.pow\<close> is taken to
  return the double nearest to the exact square.)
\<close>

definition variance :: "real list \<Rightarrow> real" where
  "variance passRates =
     fl (foldl (\<lambda>sum rate. fl (sum + fl (fl (rate - avgPassRate passRates) ^ 2))) 0 passRates
           / real (length passRates))"

text \<open>\<^verbatim>\<open>Math.sqrt(variance)\<close>, the double nearest to the exact root.\<close>

definition stdDev :: "real list \<Rightarrow> real" where
  "stdDev passRates = fl (sqrt (variance passRates))"

subsection \<open>Enumeration of the reports (lines 213 to 226)\<close>

text \<open>\<^verbatim>\<open>.filter(m => m !== null)\<close>\<close>

fun nonNull :: "'a option list \<Rightarrow> 'a list" where
  "nonNull [] = []"
| "nonNull (None # ms) = nonNull ms"
| "nonNull (Some m # ms) = m # nonNull ms"

text \<open>
  The callback of \<^verbatim>\<open>.map\<close>: \<^verbatim>\<open>null\<close> when \<^verbatim>\<open>metadata.json\<close> does not exist or when
  \<^verbatim>\<open>JSON.parse\<close> throws.
\<close>

definition readMetadata :: "node \<Rightarrow> metadata option" where
  "readMetadata n = (case n of Directory (Parsed m) \<Rightarrow> Some m | _ \<Rightarrow> None)"

text \<open>
  The comparator is \<^verbatim>\<open>a.timestamp.localeCompare(b.timestamp)\<close>; on timestamps of the
  fixed-width format \<^verbatim>\<open>YYYYMMDD-HHMMSS\<close> it orders as the lexicographic order does. The sort
  is stable, as \<^verbatim>\<open>Array.prototype.sort\<close> is.
\<close>

definition loadAllReports :: "listing \<Rightarrow> metadata list" where
  "loadAllReports entries =
     sort_key timestamp
       (nonNull (map (\<lambda>(name, n). readMetadata n)
                  (filter (\<lambda>(name, n). isDirectory n) entries)))"

subsection \<open>The window (lines 203 and 234 to 243)\<close>

text \<open>\<^verbatim>\<open>parseInt(period) || 30\<close>\<close>

definition periodDays :: "options \<Rightarrow> int" where
  "periodDays opts = int_or (opt_period opts) 30"

definition cutoffDate :: "int \<Rightarrow> int \<Rightarrow> int option" where
  "cutoffDate nowMs pd = timeClip (nowMs - pd * 24 * 60 * 60 * 1000)"

definition reportDate :: "metadata \<Rightarrow> int option" where
  "reportDate report =
     (let year = take 4 (timestamp report);
          month = take 2 (drop 4 (timestamp report));
          day = take 2 (drop 6 (timestamp report))
      in newDate year month day)"

definition recentReports :: "int \<Rightarrow> int \<Rightarrow> metadata list \<Rightarrow> metadata list" where
  "recentReports nowMs pd allReports =
     filter (\<lambda>report. date_ge (reportDate report) (cutoffDate nowMs pd)) allReports"

subsection \<open>The prompt (lines 255 to 283)\<close>

definition maxReport :: "metadata list \<Rightarrow> metadata option" where
  "maxReport recent = find (\<lambda>r. rate r = maxPassRate (map rate recent)) recent"

definition minReport :: "metadata list \<Rightarrow> metadata option" where
  "minReport recent = find (\<lambda>r. rate r = minPassRate (map rate recent)) recent"

definition historicalData :: "metadata list \<Rightarrow> string" where
  "historicalData recent =
     join newline
       (map (\<lambda>r. take 4 (timestamp r) @ ''-'' @ take 2 (drop 4 (timestamp r)) @ ''-''
                  @ take 2 (drop 6 (timestamp r)) @ '': '' @ toFixed1 (rate r) @ ''% (''
                  @ string_of_count (passed r) @ ''/'' @ string_of_count (total_tests r) @ '')'')
            recent)"

definition trendUserPrompt :: "string \<Rightarrow> string \<Rightarrow> int \<Rightarrow> metadata list \<Rightarrow> string" where
  "trendUserPrompt template project pd recent =
     (let passRates = map rate recent in
      replace_chain template
        [(''{project}'', project),
         (''{period_days}'', number_to_string pd),
         (''{total_runs}'', decimal_digits (length recent)),
         (''{historical_data}'', historicalData recent),
         (''{avg_pass_rate}'', toFixed1 (avgPassRate passRates)),
         (''{median_pass_rate}'', toFixed1 (medianPassRate passRates)),
         (''{std_dev}'', toFixed1 (stdDev passRates)),
         (''{max_pass_rate}'', toFixed1 (maxPassRate passRates)),
         (''{max_date}'', (case maxReport recent of Some r \<Rightarrow> timestamp r | None \<Rightarrow> ''N/A'')),
         (''{min_pass_rate}'', toFixed1 (minPassRate passRates)),
         (''{min_date}'', (case minReport recent of Some r \<Rightarrow> timestamp r | None \<Rightarrow> ''N/A''))])"

subsection \<open>The function\<close>

definition analyzeTrend :: "string \<Rightarrow> options \<Rightarrow> prompts \<Rightarrow> world \<Rightarrow> effect list \<times> (error + unit)" where
  "analyzeTrend project opts cfg w =
     (case reports w project of
        None \<Rightarrow> ([], Inl ProjectDirNotFound)
      | Some entries \<Rightarrow>
          (let allReports = loadAllReports entries in
           if allReports = [] then ([], Inl NoReports)
           else
             (let recent = recentReports (now w) (periodDays opts) allReports in
              if recent = [] then ([], Inl EmptyWindow)
              else
                (let userPrompt =
                       trendUserPrompt (trend_user_prompt_template cfg) project (periodDays opts) recent;
                     (evs, res) = callAnthropicAPI w (trend_system_prompt cfg) userPrompt
                 in case res of
                      Inl e \<Rightarrow> (evs, Inl e)
                    | Inr analysis \<Rightarrow>
                        (evs @ [WriteFile [ANALYSIS_DIR, project, ''trend-analysis.md'']], Inr ())))))"

section \<open>The script as a whole (lines 14 to 32 and 314 to 330)\<close>

text \<open>
  The effects of one invocation and how it ends. The usage check and the loading of the
  configuration come first; then the directory \<^verbatim>\<open>analysis/{project}\<close> is created when it is
  absent (lines 29 to 32, before the type is looked at); then the type selects the
  function. Every \<^verbatim>\<open>process.exit(1)\<close> and every exception ends the run with exit code 1.
\<close>

definition ensureAnalysisDir :: "string \<Rightarrow> world \<Rightarrow> effect list" where
  "ensureAnalysisDir project w =
     (if project \<in> analysisDirs w then [] else [Mkdir [ANALYSIS_DIR, project]])"

definition main :: "string \<Rightarrow> string \<Rightarrow> options \<Rightarrow> prompts \<Rightarrow> world \<Rightarrow> effect list \<times> (error + unit)" where
  "main project type opts cfg w =
     (if type = ''single'' then analyzeSingleReport project opts cfg w
      else if type = ''trend'' then analyzeTrend project opts cfg w
      else ([], Inl UnknownType))"

definition script :: "options \<Rightarrow> world \<Rightarrow> effect list \<times> (error + unit)" where
  "script opts w =
     (case opt_project opts of
        None \<Rightarrow> ([], Inl UsageError)
      | Some project \<Rightarrow>
          (case opt_type opts of
             None \<Rightarrow> ([], Inl UsageError)
           | Some type \<Rightarrow>
               if project = [] \<or> type = [] then ([], Inl UsageError)
               else
                 (case promptsConfig w of
                    None \<Rightarrow> ([], Inl ConfigError)
                  | Some cfg \<Rightarrow>
                      (let (evs, res) = main project type opts cfg w
                       in (ensureAnalysisDir project w @ evs, res)))))"

definition exitCode :: "effect list \<times> (error + unit) \<Rightarrow> nat" where
  "exitCode r = (case snd r of Inl e \<Rightarrow> 1 | Inr u \<Rightarrow> 0)"

definition isNetworkCall :: "effect \<Rightarrow> bool" where
  "isNetworkCall e = (case e of HttpsRequest sp up \<Rightarrow> True | _ \<Rightarrow> False)"

definition isFileWrite :: "effect \<Rightarrow> bool" where
  "isFileWrite e = (case e of WriteFile p \<Rightarrow> True | _ \<Rightarrow> False)"

definition isMkdir :: "effect \<Rightarrow> bool" where
  "isMkdir e = (case e of Mkdir p \<Rightarrow> True | _ \<Rightarrow> False)"

section \<open>Records without a pass rate\<close>

text \<open>
  To say that an absent pass rate counts as 0, a record without the field is compared with
  the same record carrying the value 0, and a report tree with the tree in which every
  parsed record is so completed.
\<close>

definition absentAsZero :: "metadata \<Rightarrow> metadata" where
  "absentAsZero r = (case pass_rate r of None \<Rightarrow> r\<lparr>pass_rate := Some 0\<rparr> | Some v \<Rightarrow> r)"

definition absentAsZeroNode :: "node \<Rightarrow> node" where
  "absentAsZeroNode n =
     (case n of Directory (Parsed m) \<Rightarrow> Directory (Parsed (absentAsZero m)) | _ \<Rightarrow> n)"

definition absentAsZeroListing :: "listing \<Rightarrow> listing" where
  "absentAsZeroListing entries = map (\<lambda>(name, n). (name, absentAsZeroNode n)) entries"

definition absentAsZeroWorld :: "world \<Rightarrow> world" where
  "absentAsZeroWorld w = w\<lparr>reports := (\<lambda>project. map_option absentAsZeroListing (reports w project))\<rparr>"

section \<open>Sample inputs\<close>

text \<open>A metadata record as the producing projects write it, with a given timestamp and pass rate.\<close>

definition sample_metadata :: "string \<Rightarrow> real option \<Rightarrow> metadata" where
  "sample_metadata ts pr =
     \<lparr>project_name = ''qa-app'', timestamp = ts, run_number = Some ''7'',
      branch = Some ''main'', status = Some ''success'', total_tests = Some 100,
      passed = Some 90, failed = Some 10, pass_rate = pr, failed_tests = None\<rparr>"

text \<open>Short templates standing for those of \<^verbatim>\<open>config/ai-prompts.yml\<close>.\<close>

definition sample_prompts :: prompts where
  "sample_prompts =
     \<lparr>single_system_prompt = ''You review one test run.'',
      single_user_prompt_template =
        ''{project} {timestamp}: {pass_rate}% (was {previous_pass_rate}%, {pass_rate_change})'',
      trend_system_prompt = ''You review a test history.'',
      trend_user_prompt_template =
        ''{project}, {period_days} days, {total_runs} runs: avg {avg_pass_rate}, median {median_pass_rate}''\<rparr>"

text \<open>A project with two runs, of 1 and 2 January 2024, at 85 and 90 percent.\<close>

definition sample_listing :: listing where
  "sample_listing =
     [(''20240101-000000'', Directory (Parsed (sample_metadata ''20240101-000000'' (Some 85)))),
      (''20240102-000000'', Directory (Parsed (sample_metadata ''20240102-000000'' (Some 90))))]"

text \<open>
  The outside at 2024-01-02T12:00:00Z: that project, no directory under \<^verbatim>\<open>analysis/\<close> yet, an
  endpoint that answers, and the credential as given.
\<close>

definition sample_world :: "string option \<Rightarrow> world" where
  "sample_world key =
     \<lparr>promptsConfig = Some sample_prompts,
      reports = [''qa-app'' \<mapsto> sample_listing],
      analysisDirs = {},
      apiKey = key,
      apiReply = Response 200 (Some ''All good.''),
      now = 1704196800000\<rparr>"

text \<open>An invocation for that project.\<close>

definition sample_options :: "string \<Rightarrow> string option \<Rightarrow> options" where
  "sample_options type ts =
     \<lparr>opt_project = Some ''qa-app'', opt_timestamp = ts, opt_type = Some type, opt_period = None\<rparr>"

text \<open>A project with one corrupt and one valid \<^verbatim>\<open>metadata.json\<close>.\<close>

definition corrupt_listing :: listing where
  "corrupt_listing =
     [(''20240101-000000'', Directory Unparseable),
      (''20240102-000000'', Directory (Parsed (sample_metadata ''20240102-000000'' (Some 90))))]"

text \<open>A project whose only run has no \<^verbatim>\<open>pass_rate\<close> in its metadata.\<close>

definition absent_listing :: listing where
  "absent_listing =
     [(''20240102-000000'', Directory (Parsed (sample_metadata ''20240102-000000'' None)))]"

text \<open>Twenty runs, seven at 86 percent and thirteen at 85 percent.\<close>

definition sample_rates :: "real list" where
  "sample_rates =
     [86, 86, 86, 86, 86, 86, 86, 85, 85, 85, 85, 85, 85, 85, 85, 85, 85, 85, 85, 85]"

section \<open>Properties\<close>

subsection \<open>Double arithmetic\<close>

text \<open>Unfolding of the search for the spacing, for the evaluation on given numbers.\<close>

lemma ulp_up_unfold:
  "ulp_up k a u = (if k = 0 then u else if a < 2 then u else ulp_up (k - 1) (a / 2) (2 * u))"
  by (cases k) simp_all

lemma ulp_down_unfold:
  "ulp_down k a u = (if k = 0 then u else if 1 \<le> a then u else ulp_down (k - 1) (2 * a) (u / 2))"
  by (cases k) simp_all

lemmas fl_eval = fl_def ulp_def round_half_even_def ulp_up_unfold ulp_down_unfold

lemma ulp_up_pos: "0 < u \<Longrightarrow> 0 < ulp_up k a u"
  by (induction k a u rule: ulp_up.induct) simp_all

lemma ulp_down_pos: "0 < u \<Longrightarrow> 0 < ulp_down k a u"
  by (induction k a u rule: ulp_down.induct) simp_all

lemma ulp_pos: "0 < ulp a"
  by (simp add: ulp_def ulp_up_pos ulp_down_pos)

lemma ulp_up_le: "0 < u \<Longrightarrow> 1 \<le> a \<Longrightarrow> ulp_up k a u \<le> u * a"
proof (induction k a u rule: ulp_up.induct)
  case (1 a u)
  then have "u * 1 \<le> u * a" by (intro mult_left_mono) simp_all
  then show ?case by simp
next
  case (2 k a u)
  show ?case
  proof (cases "a < 2")
    case True
    have "u * 1 \<le> u * a" using "2.prems" by (intro mult_left_mono) simp_all
    with True show ?thesis by simp
  next
    case False
    then have "ulp_up k (a / 2) (2 * u) \<le> 2 * u * (a / 2)"
      using "2.IH" "2.prems" by simp
    with False show ?thesis by simp
  qed
qed

lemma ulp_down_le: "0 < u \<Longrightarrow> 0 \<le> a \<Longrightarrow> ulp_down k a u \<le> u * a + u / 2 ^ k"
proof (induction k a u rule: ulp_down.induct)
  case (1 a u)
  then have "0 \<le> u * a" by simp
  then show ?case by simp
next
  case (2 k a u)
  show ?case
  proof (cases "1 \<le> a")
    case True
    have "u * 1 \<le> u * a" using True "2.prems" by (intro mult_left_mono) simp_all
    moreover have "0 \<le> u / 2 ^ Suc k" using "2.prems" by simp
    ultimately have "u \<le> u * a + u / 2 ^ Suc k" by linarith
    with True show ?thesis by simp
  next
    case False
    then have "ulp_down k (2 * a) (u / 2) \<le> u / 2 * (2 * a) + u / 2 / 2 ^ k"
      using "2.IH" "2.prems" by simp
    with False show ?thesis by simp
  qed
qed

lemma ulp_le:
  assumes "0 \<le> a"
  shows "ulp a \<le> a / 2 ^ 52 + 1 / 2 ^ 1074"
proof (cases "1 \<le> a")
  case True
  have "ulp_up 1023 a (1 / 2 ^ 52) \<le> 1 / 2 ^ 52 * a"
    using True by (intro ulp_up_le) simp_all
  with True show ?thesis by (simp add: ulp_def)
next
  case False
  have "ulp_down 1022 a (1 / 2 ^ 52) \<le> 1 / 2 ^ 52 * a + 1 / 2 ^ 52 / 2 ^ 1022"
    using assms by (intro ulp_down_le) simp_all
  moreover have "(1::real) / 2 ^ 52 / 2 ^ 1022 = 1 / 2 ^ 1074"
    by (simp add: power_add [symmetric])
  ultimately show ?thesis using False by (simp add: ulp_def)
qed

lemma round_half_even_close: "\<bar>of_int (round_half_even q) - q\<bar> \<le> 1 / 2"
proof -
  have "of_int \<lfloor>q\<rfloor> \<le> q" and "q < of_int \<lfloor>q\<rfloor> + 1" by linarith+
  then show ?thesis by (auto simp: round_half_even_def Let_def)
qed

lemma round_half_even_nonneg: "0 \<le> q \<Longrightarrow> 0 \<le> round_half_even q"
  by (auto simp: round_half_even_def Let_def)

lemma fl_close: "\<bar>fl x - x\<bar> \<le> \<bar>x\<bar> / 2 ^ 53 + 1 / 2 ^ 1075"
proof (cases "x = 0")
  case True
  then show ?thesis by (simp add: fl_def)
next
  case False
  let ?u = "ulp \<bar>x\<bar>"
  have u: "0 < ?u" by (rule ulp_pos)
  have "fl x - x = (of_int (round_half_even (x / ?u)) - x / ?u) * ?u"
    using False u by (simp add: fl_def algebra_simps)
  then have "\<bar>fl x - x\<bar> = \<bar>of_int (round_half_even (x / ?u)) - x / ?u\<bar> * ?u"
    using u by (simp add: abs_mult)
  also have "\<dots> \<le> 1 / 2 * ?u"
    using u round_half_even_close [of "x / ?u"] by (intro mult_right_mono) simp_all
  also have "\<dots> \<le> 1 / 2 * (\<bar>x\<bar> / 2 ^ 52 + 1 / 2 ^ 1074)"
    using ulp_le [of "\<bar>x\<bar>"] by (intro mult_left_mono) simp_all
  also have "\<dots> = \<bar>x\<bar> / 2 ^ 53 + 1 / 2 ^ 1075" by simp
  finally show ?thesis .
qed

lemma fl_close_bound:
  assumes "\<bar>x\<bar> \<le> B"
  shows "\<bar>fl x - x\<bar> \<le> B / 2 ^ 53 + 1 / 2 ^ 1075"
proof -
  have "\<bar>x\<bar> / 2 ^ 53 \<le> B / 2 ^ 53" using assms by (simp add: divide_right_mono)
  then show ?thesis using fl_close [of x] by linarith
qed

lemma fl_nonneg: "0 \<le> x \<Longrightarrow> 0 \<le> fl x"
  using ulp_pos [of "\<bar>x\<bar>"] round_half_even_nonneg [of "x / ulp \<bar>x\<bar>"]
  by (simp add: fl_def)

lemma roundoff_facts: "0 < roundoff" "roundoff \<le> 1 / 1000000" "0 < underflow" "underflow \<le> roundoff"
  by (simp_all add: roundoff_def underflow_def)

lemma fl_within:
  assumes "\<bar>x\<bar> \<le> B"
  shows "\<bar>fl x - x\<bar> \<le> B * roundoff + underflow"
  using fl_close_bound [OF assms] by (simp add: roundoff_def underflow_def)


subsection \<open>Evaluation on the sample inputs\<close>

lemmas eval_simps =
  sample_metadata_def sample_prompts_def sample_listing_def sample_world_def sample_options_def
  script_def main_def analyzeSingleReport_def analyzeTrend_def callAnthropicAPI_def
  ensureAnalysisDir_def previousMetadata_def allReportNames_def isDirectory_def
  singleUserPrompt_def replace_chain_def js_replace_def previousPassRate_def passRateChange_def
  passRateChangeText_def failedTestsDetails_def toFixed1_def decimal_digits.simps digit_char_def
  number_to_string_def num_or_def int_or_def str_or_def falsy_def newline_def
  ANALYSIS_DIR_def REPORTS_DIR_def exitCode_def fl_eval

text \<open>
  Claim C2, evaluated where the script departs from it. The project has the runs of
  1 January (85 percent) and 2 January (90 percent), and the single-report analysis is
  asked for the run of 2 January, the newest. The run of 1 January precedes it, yet no
  previous record is found: the baseline is 0, the change is 90 and the prompt sent says
  \<^verbatim>\<open>was 0.0%, +90.0\<close>. Asked for the run of 1 January, the oldest of the two, the lookup
  reads past the end of the array and the script stops on a TypeError.
\<close>

theorem newest_run_compared_with_nothing:
  "previousMetadata sample_listing ''20240102-000000'' = Inr None
   \<and> passRateChange (sample_metadata ''20240102-000000'' (Some 90)) None = 90
   \<and> script (sample_options ''single'' (Some ''20240102-000000'')) (sample_world (Some ''key'')) =
       ([Mkdir [''analysis'', ''qa-app''],
         HttpsRequest ''You review one test run.''
           ''qa-app 20240102-000000: 90.0% (was 0.0%, +90.0)'',
         WriteFile [''analysis'', ''qa-app'', ''latest-analysis.md''],
         WriteFile [''analysis'', ''qa-app'', ''insights.json'']],
        Inr ())
   \<and> previousMetadata sample_listing ''20240101-000000'' = Inl JsTypeError"
  by (simp add: eval_simps Let_def)

subsection \<open>Statistics\<close>

lemma count_filter_insort:
  "length (filter P (insort_key f x xs)) = length (filter P (x # xs))"
  by (induction xs) simp_all

lemma count_filter_sort_key:
  "length (filter P (sort_key f xs)) = length (filter P xs)"
  by (induction xs) (simp_all add: count_filter_insort)

lemma sorted_prefix_below:
  assumes "sorted (s::real list)" and "k < length s"
  shows "k + 1 \<le> length (filter (\<lambda>x. x \<le> s ! k) s)"
proof -
  have all: "\<forall>x\<in>set (take (k + 1) s). x \<le> s ! k"
  proof
    fix x assume "x \<in> set (take (k + 1) s)"
    then obtain i where i: "i < k + 1" "i < length s" "x = s ! i"
      by (auto simp: in_set_conv_nth)
    with assms show "x \<le> s ! k" by (simp add: sorted_nth_mono)
  qed
  have "length (filter (\<lambda>x. x \<le> s ! k) (take (k + 1) s)) = length (take (k + 1) s)"
    using all by simp
  also have "\<dots> = k + 1" using assms by simp
  finally have a: "length (filter (\<lambda>x. x \<le> s ! k) (take (k + 1) s)) = k + 1" .
  have "s = take (k + 1) s @ drop (k + 1) s" by simp
  then have "length (filter (\<lambda>x. x \<le> s ! k) s)
      = length (filter (\<lambda>x. x \<le> s ! k) (take (k + 1) s)) + length (filter (\<lambda>x. x \<le> s ! k) (drop (k + 1) s))"
    by (metis filter_append length_append)
  with a show ?thesis by simp
qed

lemma sorted_suffix_above:
  assumes "sorted (s::real list)" and "k < length s"
  shows "length s - k \<le> length (filter (\<lambda>x. s ! k \<le> x) s)"
proof -
  have all: "\<forall>x\<in>set (drop k s). s ! k \<le> x"
  proof
    fix x assume "x \<in> set (drop k s)"
    then obtain j where j: "j < length s - k" "x = s ! (k + j)"
      by (auto simp: in_set_conv_nth)
    then have i: "k \<le> k + j" "k + j < length s" by simp_all
    with assms j show "s ! k \<le> x" by (simp add: sorted_nth_mono)
  qed
  have a: "length (filter (\<lambda>x. s ! k \<le> x) (drop k s)) = length s - k"
    using all by simp
  have "s = take k s @ drop k s" by simp
  then have "length (filter (\<lambda>x. s ! k \<le> x) s)
      = length (filter (\<lambda>x. s ! k \<le> x) (take k s)) + length (filter (\<lambda>x. s ! k \<le> x) (drop k s))"
    by (metis filter_append length_append)
  with a show ?thesis by simp
qed

text \<open>
  Claim C1, as amended. For every non-empty trend window of even length, the median pass
  rate is the element at zero-based index \<open>N div 2\<close> of the ascending list of pass rates,
  which is the upper of the two middle elements: it is not below the lower-middle element,
  at least \<open>N div 2 + 1\<close> rates are less than or equal to it and at least \<open>N div 2\<close> are
  greater than or equal to it.
\<close>

theorem median_is_upper_middle:
  assumes "passRates \<noteq> []" and "even (length passRates)"
  shows "medianPassRate passRates = sort passRates ! (length passRates div 2)
       \<and> sort passRates ! (length passRates div 2 - 1) \<le> medianPassRate passRates
       \<and> length passRates div 2 + 1 \<le> length (filter (\<lambda>x. x \<le> medianPassRate passRates) passRates)
       \<and> length passRates div 2 \<le> length (filter (\<lambda>x. medianPassRate passRates \<le> x) passRates)"
proof -
  let ?s = "sort passRates" and ?k = "length passRates div 2"
  have k: "?k < length ?s" using assms(1) by simp
  have med: "medianPassRate passRates = ?s ! ?k"
    by (simp add: medianPassRate_def sortedRates_def)
  have srt: "sorted ?s" by simp
  have low: "?s ! (?k - 1) \<le> ?s ! ?k"
    using srt k by (simp add: sorted_nth_mono)
  have below: "?k + 1 \<le> length (filter (\<lambda>x. x \<le> ?s ! ?k) passRates)"
    using sorted_prefix_below [OF srt k] by (simp only: count_filter_sort_key)
  have "length ?s - ?k \<le> length (filter (\<lambda>x. ?s ! ?k \<le> x) passRates)"
    using sorted_suffix_above [OF srt k] by (simp only: count_filter_sort_key)
  moreover have "length ?s - ?k = ?k" using assms(2) by (auto elim: evenE)
  ultimately have above: "?k \<le> length (filter (\<lambda>x. ?s ! ?k \<le> x) passRates)" by simp
  show ?thesis using med low below above by simp
qed

text \<open>The window of pass rates 10, 20, 30, 40 has median 30.\<close>

theorem median_is_upper_middle_witness:
  "[10, 20, 30, 40] \<noteq> ([] :: real list) \<and> even (length [10, 20, 30, 40 :: real])
   \<and> medianPassRate [10, 20, 30, 40] = 30"
  using median_is_upper_middle [of "[10, 20, 30, 40]"] by simp

text \<open>
  Claim C1 as stated fails: for the pass rates 10, 20, 30, 40 the median is neither 20 nor
  the lower-middle element of the sorted list.
\<close>

theorem median_lower_middle_counterexample:
  "medianPassRate [10, 20, 30, 40] \<noteq> 20
   \<and> medianPassRate [10, 20, 30, 40] \<noteq> sortedRates [10, 20, 30, 40] ! (length [10, 20, 30, 40 :: real] div 2 - 1)"
  by (simp add: medianPassRate_def sortedRates_def)

lemma fl_sum_close:
  fixes f g :: "'a \<Rightarrow> real"
  assumes rnd: "\<And>x. \<bar>x\<bar> \<le> B \<Longrightarrow> \<bar>fl x - x\<bar> \<le> e"
    and d: "e + t \<le> d" "0 \<le> t" "0 \<le> e"
    and terms: "\<forall>z\<in>set zs. \<bar>f z - g z\<bar> \<le> t \<and> 0 \<le> g z"
    and acc: "\<bar>acc - s\<bar> \<le> real j * d" "0 \<le> s"
    and room: "s + (\<Sum>z\<leftarrow>zs. g z) + real (j + length zs) * d \<le> B"
  shows "\<bar>foldl (\<lambda>a z. fl (a + f z)) acc zs - (s + (\<Sum>z\<leftarrow>zs. g z))\<bar>
           \<le> real (j + length zs) * d"
  using terms acc room
proof (induction zs arbitrary: acc s j)
  case Nil
  then show ?case by simp
next
  case (Cons z zs)
  let ?x = "acc + f z" and ?y = "s + g z"
  have d0: "0 \<le> d" using d by linarith
  have fz: "\<bar>f z - g z\<bar> \<le> t" and gz: "0 \<le> g z" using Cons.prems(1) by simp_all
  have rest: "\<forall>z\<in>set zs. \<bar>f z - g z\<bar> \<le> t \<and> 0 \<le> g z" using Cons.prems(1) by simp
  have sum0: "0 \<le> (\<Sum>z\<leftarrow>zs. g z)" using rest by (intro sum_list_nonneg) auto
  have len0: "0 \<le> real (length zs) * d" using d0 by simp
  have room': "s + g z + (\<Sum>z\<leftarrow>zs. g z) + (real j * d + d + real (length zs) * d) \<le> B"
    using Cons.prems(4) by (simp add: algebra_simps)
  have xy: "\<bar>?x - ?y\<bar> \<le> real j * d + t" using Cons.prems(2) fz by linarith
  have "\<bar>?x\<bar> \<le> ?y + real j * d + t" using xy Cons.prems(3) gz by linarith
  also have "\<dots> \<le> B" using room' sum0 len0 d by linarith
  finally have "\<bar>fl ?x - ?x\<bar> \<le> e" by (rule rnd)
  then have acc': "\<bar>fl ?x - ?y\<bar> \<le> real (Suc j) * d"
    using xy d by (simp add: algebra_simps)
  have y0: "0 \<le> ?y" using Cons.prems(3) gz by simp
  have room'': "?y + (\<Sum>z\<leftarrow>zs. g z) + real (Suc j + length zs) * d \<le> B"
    using room' by (simp add: algebra_simps)
  have "\<bar>foldl (\<lambda>a z. fl (a + f z)) (fl ?x) zs - (?y + (\<Sum>z\<leftarrow>zs. g z))\<bar>
      \<le> real (Suc j + length zs) * d"
    using rest acc' y0 room'' by (rule Cons.IH)
  then show ?case by (simp add: algebra_simps)
qed

lemma sum_list_between:
  assumes "\<forall>r\<in>set rs. 0 \<le> g r \<and> g r \<le> c"
  shows "0 \<le> (\<Sum>r\<leftarrow>rs. g r) \<and> (\<Sum>r\<leftarrow>rs. g r) \<le> c * real (length rs)"
  using assms by (induction rs) (auto simp: algebra_simps)

lemma fl_sum_nonneg:
  assumes "\<forall>z\<in>set zs. 0 \<le> f z" and "0 \<le> acc"
  shows "0 \<le> foldl (\<lambda>a z. fl (a + f z)) acc zs"
  using assms by (induction zs arbitrary: acc) (simp_all add: fl_nonneg)

lemma sqrt_close:
  assumes "0 \<le> a" and "0 \<le> b"
  shows "\<bar>sqrt a - sqrt b\<bar> \<le> sqrt \<bar>a - b\<bar>"
proof -
  have le: "sqrt y \<le> sqrt x + sqrt \<bar>y - x\<bar>" if "0 \<le> x" "x \<le> y" for x y :: real
  proof -
    have "sqrt y = sqrt (x + (y - x))" by simp
    also have "\<dots> \<le> sqrt x + sqrt (y - x)" using that by (intro sqrt_add_le_add_sqrt) simp_all
    finally show ?thesis using that by simp
  qed
  show ?thesis
  proof (cases "a \<le> b")
    case True
    have "sqrt a \<le> sqrt b" using True by simp
    moreover have "sqrt b \<le> sqrt a + sqrt \<bar>b - a\<bar>" using assms True by (intro le)
    moreover have "\<bar>b - a\<bar> = \<bar>a - b\<bar>" by simp
    ultimately show ?thesis by (simp add: abs_le_iff)
  next
    case False
    then have "sqrt b \<le> sqrt a" by simp
    moreover have "sqrt a \<le> sqrt b + sqrt \<bar>a - b\<bar>" using assms False by (intro le) simp_all
    ultimately show ?thesis by (simp add: abs_le_iff)
  qed
qed

lemma avgPassRate_close:
  assumes ne: "rs \<noteq> []"
    and range: "\<forall>r\<in>set rs. 0 \<le> r \<and> r \<le> 100"
    and len: "length rs \<le> 2 ^ 32"
  shows "\<bar>avgPassRate rs - sum_list rs / real (length rs)\<bar>
           \<le> 101 * (real (length rs) + 1) * roundoff + 2 * underflow"
proof -
  define N where "N = real (length rs)"
  define s where "s = sum_list rs"
  define sh where "sh = foldl (\<lambda>a b. fl (a + b)) 0 rs"
  define e1 where "e1 = 101 * N * roundoff + underflow"
  note rf = roundoff_facts
  have N1: "1 \<le> N" using ne by (cases rs) (simp_all add: N_def)
  have "N \<le> 2 ^ 32" using len unfolding N_def by (metis of_nat_le_iff of_nat_numeral of_nat_power)
  then have "N * roundoff \<le> 2 ^ 32 * roundoff" using rf(1) by (intro mult_right_mono) simp_all
  also have "\<dots> \<le> 1 / 1000000" by (simp add: roundoff_def)
  finally have Nu: "N * roundoff \<le> 1 / 1000000" .
  have e1: "0 \<le> e1" "e1 \<le> 1" using Nu rf N1 unfolding e1_def by simp_all
  have s: "0 \<le> s" "s \<le> 100 * N"
    using sum_list_between [of rs "\<lambda>r. r" 100] range by (simp_all add: s_def N_def)
  have "\<bar>foldl (\<lambda>a z. fl (a + z)) 0 rs - (0 + (\<Sum>z\<leftarrow>rs. z))\<bar> \<le> real (0 + length rs) * e1"
  proof (rule fl_sum_close [where B = "101 * N" and e = e1 and t = 0])
    show "\<bar>fl x - x\<bar> \<le> e1" if "\<bar>x\<bar> \<le> 101 * N" for x
      using fl_within [OF that] by (simp add: e1_def)
    show "e1 + 0 \<le> e1" "(0::real) \<le> 0" "0 \<le> e1" using e1 by simp_all
    show "\<forall>z\<in>set rs. \<bar>z - z\<bar> \<le> 0 \<and> 0 \<le> z" using range by simp
    show "\<bar>(0::real) - 0\<bar> \<le> real 0 * e1" "(0::real) \<le> 0" by simp_all
    have "N * e1 \<le> N * 1" using e1 N1 by (intro mult_left_mono) simp_all
    then show "0 + (\<Sum>z\<leftarrow>rs. z) + real (0 + length rs) * e1 \<le> 101 * N"
      using s by (simp add: s_def N_def)
  qed
  then have sh: "\<bar>sh - s\<bar> \<le> N * e1" by (simp add: sh_def s_def N_def)
  have Npos: "0 < N" using N1 by simp
  have "\<bar>sh / N - s / N\<bar> = \<bar>sh - s\<bar> / N" using Npos by (simp add: diff_divide_distrib [symmetric])
  also have "\<dots> \<le> N * e1 / N" using sh Npos by (intro divide_right_mono) simp_all
  also have "\<dots> = e1" using Npos by simp
  finally have q: "\<bar>sh / N - s / N\<bar> \<le> e1" .
  have mean: "0 \<le> s / N" "s / N \<le> 100" using s Npos by (simp_all add: field_simps)
  have "\<bar>sh / N\<bar> \<le> 101" using q mean e1 by linarith
  then have "\<bar>fl (sh / N) - sh / N\<bar> \<le> 101 * roundoff + underflow" by (rule fl_within)
  then have "\<bar>fl (sh / N) - s / N\<bar> \<le> e1 + 101 * roundoff + underflow" using q by linarith
  then show ?thesis
    by (simp add: avgPassRate_def sh_def s_def N_def e1_def algebra_simps)
qed

lemma square_close:
  fixes x y c :: real
  assumes "\<bar>x - y\<bar> \<le> c" and "\<bar>x\<bar> \<le> 101" and "\<bar>y\<bar> \<le> 100"
  shows "\<bar>x ^ 2 - y ^ 2\<bar> \<le> 201 * c"
proof -
  have "x ^ 2 - y ^ 2 = (x - y) * (x + y)" by algebra
  then have "\<bar>x ^ 2 - y ^ 2\<bar> = \<bar>x - y\<bar> * \<bar>x + y\<bar>" by (simp add: abs_mult)
  also have "\<dots> \<le> c * 201"
    using assms by (intro mult_mono) linarith+
  finally show ?thesis by simp
qed

lemma stdDev_close:
  assumes ne: "rs \<noteq> []"
    and range: "\<forall>r\<in>set rs. 0 \<le> r \<and> r \<le> 100"
    and len: "length rs \<le> 2 ^ 32"
  shows "\<bar>stdDev rs - sqrt ((\<Sum>r\<leftarrow>rs. (r - sum_list rs / real (length rs)) ^ 2) / real (length rs))\<bar>
           \<le> sqrt ((30302 * real (length rs) + 60804) * roundoff + 606 * underflow)
              + 101 * roundoff + underflow"
proof -
  define N where "N = real (length rs)"
  define a where "a = sum_list rs / N"
  define ah where "ah = avgPassRate rs"
  define f where "f = (\<lambda>r. fl (fl (r - ah) ^ 2))"
  define g where "g = (\<lambda>r. (r - a) ^ 2)"
  define ea where "ea = 101 * (N + 1) * roundoff + 2 * underflow"
  define ed where "ed = ea + 101 * roundoff + underflow"
  define eq where "eq = 201 * ed + 10201 * roundoff + underflow"
  define e2 where "e2 = 10001 * N * roundoff + underflow"
  define S where "S = (\<Sum>r\<leftarrow>rs. g r)"
  define Sh where "Sh = foldl (\<lambda>sum r. fl (sum + f r)) 0 rs"
  define ev where "ev = e2 + eq + 10001 * roundoff + underflow"
  note rf = roundoff_facts
  have N1: "1 \<le> N" using ne by (cases rs) (simp_all add: N_def)
  then have Npos: "0 < N" by simp
  have "N \<le> 2 ^ 32" using len unfolding N_def by (metis of_nat_le_iff of_nat_numeral of_nat_power)
  then have "N * roundoff \<le> 2 ^ 32 * roundoff" using rf(1) by (intro mult_right_mono) simp_all
  also have "\<dots> \<le> 1 / 1000000" by (simp add: roundoff_def)
  finally have Nu: "N * roundoff \<le> 1 / 1000000" .
  have Nu0: "0 \<le> N * roundoff" using Npos rf by simp
  have ea: "0 \<le> ea" "ea \<le> 1 / 1000" using Nu Nu0 rf unfolding ea_def by (simp_all add: algebra_simps)
  have ed: "0 \<le> ed" "ed \<le> 1 / 500" using ea rf unfolding ed_def by simp_all
  have eq: "0 \<le> eq" "eq \<le> 1 / 2" using ed rf unfolding eq_def by simp_all
  have e2: "0 \<le> e2" "e2 \<le> 1 / 50" using Nu Nu0 rf unfolding e2_def by simp_all
  have ah: "\<bar>ah - a\<bar> \<le> ea"
    using avgPassRate_close [OF ne range len] by (simp add: ah_def a_def N_def ea_def)
  have s: "0 \<le> sum_list rs" "sum_list rs \<le> 100 * N"
    using sum_list_between [of rs "\<lambda>r. r" 100] range by (simp_all add: N_def)
  have a: "0 \<le> a" "a \<le> 100" using s Npos by (simp_all add: a_def field_simps)
  have terms: "\<bar>f r - g r\<bar> \<le> eq \<and> 0 \<le> g r \<and> g r \<le> 10000 \<and> 0 \<le> f r" if "r \<in> set rs" for r
  proof -
    have r: "0 \<le> r" "r \<le> 100" using range that by simp_all
    have d: "\<bar>r - a\<bar> \<le> 100" using r a by linarith
    have "\<bar>r - ah\<bar> \<le> 101" using r a ah ea by linarith
    then have "\<bar>fl (r - ah) - (r - ah)\<bar> \<le> 101 * roundoff + underflow" by (rule fl_within)
    then have dh: "\<bar>fl (r - ah) - (r - a)\<bar> \<le> ed" using ah unfolding ed_def by linarith
    then have dh101: "\<bar>fl (r - ah)\<bar> \<le> 101" using d ed by linarith
    have sq: "\<bar>fl (r - ah) ^ 2 - (r - a) ^ 2\<bar> \<le> 201 * ed"
      using dh dh101 d by (rule square_close)
    have "\<bar>fl (r - ah)\<bar> ^ 2 \<le> 101 ^ 2" using dh101 by (intro power_mono) simp_all
    then have "\<bar>fl (r - ah) ^ 2\<bar> \<le> 10201" by simp
    then have "\<bar>fl (fl (r - ah) ^ 2) - fl (r - ah) ^ 2\<bar> \<le> 10201 * roundoff + underflow"
      by (rule fl_within)
    then have 1: "\<bar>f r - g r\<bar> \<le> eq" using sq unfolding f_def g_def eq_def by linarith
    have "\<bar>r - a\<bar> ^ 2 \<le> 100 ^ 2" using d by (intro power_mono) simp_all
    then have 2: "g r \<le> 10000" by (simp add: g_def)
    have 3: "0 \<le> g r" by (simp add: g_def)
    have 4: "0 \<le> f r" unfolding f_def by (intro fl_nonneg) simp
    show ?thesis using 1 2 3 4 by simp
  qed
  have S: "0 \<le> S" "S \<le> 10000 * N"
    using sum_list_between [of rs g 10000] terms by (simp_all add: S_def N_def)
  have "\<bar>foldl (\<lambda>a z. fl (a + f z)) 0 rs - (0 + (\<Sum>z\<leftarrow>rs. g z))\<bar> \<le> real (0 + length rs) * (e2 + eq)"
  proof (rule fl_sum_close [where B = "10001 * N" and e = e2 and t = eq])
    show "\<bar>fl x - x\<bar> \<le> e2" if "\<bar>x\<bar> \<le> 10001 * N" for x
      using fl_within [OF that] by (simp add: e2_def)
    show "e2 + eq \<le> e2 + eq" "0 \<le> eq" "0 \<le> e2" using e2 eq by simp_all
    show "\<forall>z\<in>set rs. \<bar>f z - g z\<bar> \<le> eq \<and> 0 \<le> g z" using terms by simp
    show "\<bar>(0::real) - 0\<bar> \<le> real 0 * (e2 + eq)" "(0::real) \<le> 0" by simp_all
    have "N * (e2 + eq) \<le> N * 1" using e2 eq N1 by (intro mult_left_mono) simp_all
    then show "0 + (\<Sum>z\<leftarrow>rs. g z) + real (0 + length rs) * (e2 + eq) \<le> 10001 * N"
      using S by (simp add: S_def N_def)
  qed
  then have Sh: "\<bar>Sh - S\<bar> \<le> N * (e2 + eq)" by (simp add: Sh_def S_def N_def)
  have Sh0: "0 \<le> Sh" unfolding Sh_def using terms by (intro fl_sum_nonneg) simp_all
  have "\<bar>Sh / N - S / N\<bar> = \<bar>Sh - S\<bar> / N" using Npos by (simp add: diff_divide_distrib [symmetric])
  also have "\<dots> \<le> N * (e2 + eq) / N" using Sh Npos by (intro divide_right_mono) simp_all
  also have "\<dots> = e2 + eq" using Npos by simp
  finally have q: "\<bar>Sh / N - S / N\<bar> \<le> e2 + eq" .
  have V: "0 \<le> S / N" "S / N \<le> 10000" using S Npos by (simp_all add: field_simps)
  have "\<bar>Sh / N\<bar> \<le> 10001" using q V e2 eq by linarith
  then have "\<bar>fl (Sh / N) - Sh / N\<bar> \<le> 10001 * roundoff + underflow" by (rule fl_within)
  then have v: "\<bar>fl (Sh / N) - S / N\<bar> \<le> ev" using q unfolding ev_def by linarith
  have ev1: "ev \<le> 1" using e2 eq rf unfolding ev_def by simp
  have v0: "0 \<le> fl (Sh / N)" using Sh0 Npos by (intro fl_nonneg) simp
  have "\<bar>sqrt (fl (Sh / N)) - sqrt (S / N)\<bar> \<le> sqrt \<bar>fl (Sh / N) - S / N\<bar>"
    using v0 V(1) by (rule sqrt_close)
  also have "\<dots> \<le> sqrt ev" using v by simp
  finally have r: "\<bar>sqrt (fl (Sh / N)) - sqrt (S / N)\<bar> \<le> sqrt ev" .
  have "fl (Sh / N) \<le> 10201" using v V ev1 by linarith
  then have "sqrt (fl (Sh / N)) \<le> sqrt (101 ^ 2)" by (simp only: real_sqrt_le_iff) simp
  then have "\<bar>sqrt (fl (Sh / N))\<bar> \<le> 101" using v0 by simp
  then have "\<bar>fl (sqrt (fl (Sh / N))) - sqrt (fl (Sh / N))\<bar> \<le> 101 * roundoff + underflow"
    by (rule fl_within)
  then have fin: "\<bar>fl (sqrt (fl (Sh / N))) - sqrt (S / N)\<bar> \<le> sqrt ev + 101 * roundoff + underflow"
    using r by linarith
  have evx: "ev = (30302 * N + 60804) * roundoff + 606 * underflow"
    unfolding ev_def e2_def eq_def ed_def ea_def by (simp add: algebra_simps)
  have lhs: "stdDev rs = fl (sqrt (fl (Sh / N)))"
    by (simp add: stdDev_def variance_def Sh_def f_def ah_def N_def)
  have rhs: "S / N = (\<Sum>r\<leftarrow>rs. (r - sum_list rs / real (length rs)) ^ 2) / real (length rs)"
    by (simp add: S_def g_def a_def N_def)
  show ?thesis using fin unfolding lhs rhs [symmetric] evx N_def .
qed

text \<open>
  Claim C8, as amended. For every non-empty list of at most \<open>2\<^sup>3\<^sup>2\<close> pass rates between 0 and
  100, the computed average is the arithmetic mean (the sum divided by the count \<open>N\<close>) up
  to the rounding of the double operations: it differs from the exact mean by at most
  \<open>(N + 1) / 2\<^sup>4\<^sup>6\<close>. The computed standard deviation is the population standard deviation,
  the square root of the sum of the squared deviations from the mean divided by \<open>N\<close> (not
  \<open>N - 1\<close>), up to the same rounding: it differs from the exact one by at most
  \<open>sqrt ((N + 2) / 2\<^sup>3\<^sup>8) + 1 / 2\<^sup>4\<^sup>6\<close>.
\<close>

theorem mean_and_std_dev_up_to_rounding:
  assumes "passRates \<noteq> []"
    and "\<forall>r\<in>set passRates. 0 \<le> r \<and> r \<le> 100"
    and "length passRates \<le> 2 ^ 32"
  shows "\<bar>avgPassRate passRates - sum_list passRates / real (length passRates)\<bar>
           \<le> (real (length passRates) + 1) / 2 ^ 46
       \<and> \<bar>stdDev passRates
            - sqrt ((\<Sum>r\<leftarrow>passRates. (r - sum_list passRates / real (length passRates)) ^ 2)
                    / real (length passRates))\<bar>
           \<le> sqrt ((real (length passRates) + 2) / 2 ^ 38) + 1 / 2 ^ 46"
proof -
  let ?N = "real (length passRates)"
  note rf = roundoff_facts
  have Nr: "0 \<le> ?N * roundoff" using rf by simp
  have "101 * (?N + 1) * roundoff = 101 * (?N * roundoff) + 101 * roundoff"
    and "128 * (?N + 1) * roundoff = 128 * (?N * roundoff) + 128 * roundoff"
    by (simp_all add: algebra_simps)
  then have "101 * (?N + 1) * roundoff + 2 * underflow \<le> 128 * (?N + 1) * roundoff"
    using Nr rf by linarith
  also have "\<dots> = (?N + 1) / 2 ^ 46" by (simp add: roundoff_def)
  finally have mean: "\<bar>avgPassRate passRates - sum_list passRates / ?N\<bar> \<le> (?N + 1) / 2 ^ 46"
    using avgPassRate_close [OF assms] by linarith
  have "(30302 * ?N + 60804) * roundoff = 30302 * (?N * roundoff) + 60804 * roundoff"
    and "32768 * (?N + 2) * roundoff = 32768 * (?N * roundoff) + 65536 * roundoff"
    by (simp_all add: algebra_simps)
  then have "(30302 * ?N + 60804) * roundoff + 606 * underflow \<le> 32768 * (?N + 2) * roundoff"
    using Nr rf by linarith
  also have "\<dots> = (?N + 2) / 2 ^ 38" by (simp add: roundoff_def)
  finally have "sqrt ((30302 * ?N + 60804) * roundoff + 606 * underflow)
      \<le> sqrt ((?N + 2) / 2 ^ 38)"
    by (simp only: real_sqrt_le_iff)
  moreover have "101 * roundoff + underflow \<le> 128 * roundoff" using rf by simp
  moreover have "128 * roundoff = 1 / 2 ^ 46" by (simp add: roundoff_def)
  ultimately have dev: "\<bar>stdDev passRates
            - sqrt ((\<Sum>r\<leftarrow>passRates. (r - sum_list passRates / ?N) ^ 2) / ?N)\<bar>
           \<le> sqrt ((?N + 2) / 2 ^ 38) + 1 / 2 ^ 46"
    using stdDev_close [OF assms] by linarith
  show ?thesis using mean dev by (rule conjI)
qed

text \<open>
  Seven runs at 86 percent and thirteen at 85: the exact mean is 85.35 and the exact
  population deviation the root of 0.2275. The computed deviation stays below the root of
  0.2275 \<times> 20 / 19, which the formula dividing by \<open>N - 1\<close> would give.
\<close>

theorem mean_and_std_dev_up_to_rounding_witness:
  "\<bar>avgPassRate sample_rates - 1707 / 20\<bar> \<le> 21 / 2 ^ 46
   \<and> \<bar>stdDev sample_rates - sqrt (91 / 400)\<bar> \<le> sqrt (22 / 2 ^ 38) + 1 / 2 ^ 46
   \<and> stdDev sample_rates < sqrt (91 / 380)"
proof -
  have ne: "sample_rates \<noteq> []" and rg: "\<forall>r\<in>set sample_rates. 0 \<le> r \<and> r \<le> 100"
    and ln: "length sample_rates \<le> 2 ^ 32"
    by (simp_all add: sample_rates_def)
  have n: "real (length sample_rates) = 20" by (simp add: sample_rates_def)
  have m: "sum_list sample_rates / 20 = 1707 / 20" by (simp add: sample_rates_def)
  have v: "(\<Sum>r\<leftarrow>sample_rates. (r - 1707 / 20) ^ 2) / 20 = 91 / 400"
    by (simp add: sample_rates_def power2_eq_square)
  have b: "\<bar>avgPassRate sample_rates - 1707 / 20\<bar> \<le> 21 / 2 ^ 46
      \<and> \<bar>stdDev sample_rates - sqrt (91 / 400)\<bar> \<le> sqrt (22 / 2 ^ 38) + 1 / 2 ^ 46"
    using mean_and_std_dev_up_to_rounding [OF ne rg ln] unfolding n m v by simp
  have "sqrt (91 / 400) \<le> 477 / 1000" by (rule real_le_lsqrt) (simp_all add: power2_eq_square)
  moreover have "sqrt (22 / 2 ^ 38) \<le> 1 / 1000" by (rule real_le_lsqrt) (simp_all add: power2_eq_square)
  moreover have "489 / 1000 \<le> sqrt (91 / 380)" by (rule real_le_rsqrt) (simp add: power2_eq_square)
  moreover have "(1::real) / 2 ^ 46 \<le> 1 / 1000" by simp
  moreover have "\<bar>stdDev sample_rates - sqrt (91 / 400)\<bar> \<le> sqrt (22 / 2 ^ 38) + 1 / 2 ^ 46"
    using b by (rule conjunct2)
  ultimately have "stdDev sample_rates < sqrt (91 / 380)" by linarith
  with b show ?thesis by simp
qed

text \<open>
  Claim C8 as stated fails: for seven runs at 86 percent and thirteen at 85 the computed
  average is the double nearest to 85.35, which lies below 85.35 and is rendered as 85.3,
  whereas the exact mean 85.35 would be rendered as 85.4.
\<close>

theorem computed_mean_not_exact_counterexample:
  "avgPassRate sample_rates = 3002986157781811 / 35184372088832
   \<and> sum_list sample_rates / real (length sample_rates) = 1707 / 20
   \<and> avgPassRate sample_rates \<noteq> sum_list sample_rates / real (length sample_rates)
   \<and> toFixed1 (avgPassRate sample_rates) = ''85.3''
   \<and> toFixed1 (sum_list sample_rates / real (length sample_rates)) = ''85.4''"
proof -
  have avg: "avgPassRate sample_rates = 3002986157781811 / 35184372088832"
    by (simp add: avgPassRate_def sample_rates_def fl_eval)
  have mean: "sum_list sample_rates / real (length sample_rates) = 1707 / 20"
    by (simp add: sample_rates_def)
  have "toFixed1 (3002986157781811 / 35184372088832) = ''85.3''"
    and "toFixed1 (1707 / 20) = ''85.4''"
    by (simp_all add: toFixed1_def decimal_digits.simps digit_char_def)
  then show ?thesis by (simp add: avg mean)
qed

subsection \<open>Rendering of numbers\<close>

lemma digit_char_in_digits: "digit_char d \<in> set ''0123456789''"
  unfolding digit_char_def by (rule nth_mem) simp

lemma decimal_digits_in_digits: "set (decimal_digits n) \<subseteq> set ''0123456789''"
proof (induction n rule: decimal_digits.induct)
  case (1 n)
  show ?case
  proof (cases "n < 10")
    case True
    then show ?thesis
      using digit_char_in_digits [of n] by (subst decimal_digits.simps) simp
  next
    case False
    then show ?thesis
      using "1" digit_char_in_digits [of n] by (subst decimal_digits.simps) simp
  qed
qed

lemma decimal_digits_not_Nil: "decimal_digits n \<noteq> []"
  by (subst decimal_digits.simps) simp

lemma plus_not_in_toFixed1: "CHR ''+'' \<notin> set (toFixed1 x)"
proof -
  have "CHR ''+'' \<notin> set (decimal_digits k)" for k
    using decimal_digits_in_digits [of k] by auto
  moreover have "CHR ''+'' \<noteq> digit_char k" for k
    using digit_char_in_digits [of k] by auto
  ultimately show ?thesis by (simp add: toFixed1_def Let_def)
qed

lemma toFixed1_not_Nil: "toFixed1 x \<noteq> []"
  by (simp add: toFixed1_def Let_def)

lemma toFixed1_shape:
  "\<exists>q r. r < 10
     \<and> toFixed1 x = (if x < 0 then ''-'' else []) @ decimal_digits q @ ''.'' @ [digit_char r]
     \<and> \<bar>real (10 * q + r) / 10 - \<bar>x\<bar>\<bar> \<le> 1 / 20"
proof -
  define n where "n = nat \<lfloor>\<bar>x\<bar> * 10 + 1 / 2\<rfloor>"
  have nonneg: "0 \<le> \<lfloor>\<bar>x\<bar> * 10 + 1 / 2\<rfloor>" by simp
  have n_real: "real n = of_int \<lfloor>\<bar>x\<bar> * 10 + 1 / 2\<rfloor>"
    using nonneg by (simp add: n_def)
  have up: "real n \<le> \<bar>x\<bar> * 10 + 1 / 2" unfolding n_real by (rule of_int_floor_le)
  have lo: "\<bar>x\<bar> * 10 + 1 / 2 < real n + 1" unfolding n_real by linarith
  have split: "10 * (n div 10) + n mod 10 = n" by simp
  have "real n / 10 - \<bar>x\<bar> \<le> 1 / 20" and "\<bar>x\<bar> - real n / 10 \<le> 1 / 20"
    using up lo by linarith+
  then have "\<bar>real n / 10 - \<bar>x\<bar>\<bar> \<le> 1 / 20" by linarith
  then have "\<bar>real (10 * (n div 10) + n mod 10) / 10 - \<bar>x\<bar>\<bar> \<le> 1 / 20"
    by (simp only: split)
  moreover have "toFixed1 x = (if x < 0 then ''-'' else []) @ decimal_digits (n div 10) @ ''.'' @ [digit_char (n mod 10)]"
    by (simp add: toFixed1_def Let_def n_def)
  moreover have "n mod 10 < 10" by simp
  ultimately show ?thesis by blast
qed

text \<open>
  Claim C6. In single-report mode the text rendered for the pass-rate change is the change
  to one decimal place, with a leading plus sign exactly when the change is positive: a
  current pass rate of 90.0 against a previous 85.0 gives \<^verbatim>\<open>+5.0\<close>, against a previous 95.0
  it gives \<^verbatim>\<open>-5.0\<close>. The plus sign occurs in the text (and then in front) if and only if
  the change is positive, and the digits are those of the tenth nearest to the change.
\<close>

theorem pass_rate_change_text:
  "(pass_rate m = Some 90 \<and> pass_rate pm = Some 85
      \<longrightarrow> passRateChangeText (passRateChange m (Some pm)) = ''+5.0'')
   \<and> (pass_rate m = Some 90 \<and> pass_rate pm = Some 95
      \<longrightarrow> passRateChangeText (passRateChange m (Some pm)) = ''-5.0'')
   \<and> (hd (passRateChangeText d) = CHR ''+'' \<longleftrightarrow> 0 < d)
   \<and> (CHR ''+'' \<in> set (passRateChangeText d) \<longleftrightarrow> 0 < d)
   \<and> (\<exists>q r. r < 10
         \<and> passRateChangeText d =
             (if 0 < d then ''+'' else if d < 0 then ''-'' else []) @ decimal_digits q @ ''.'' @ [digit_char r]
         \<and> \<bar>real (10 * q + r) / 10 - \<bar>d\<bar>\<bar> \<le> 1 / 20)"
proof -
  have ex1: "pass_rate m = Some 90 \<and> pass_rate pm = Some 85
      \<longrightarrow> passRateChangeText (passRateChange m (Some pm)) = ''+5.0''"
    by (simp add: passRateChangeText_def passRateChange_def previousPassRate_def num_or_def
        toFixed1_def decimal_digits.simps digit_char_def fl_eval)
  have ex2: "pass_rate m = Some 90 \<and> pass_rate pm = Some 95
      \<longrightarrow> passRateChangeText (passRateChange m (Some pm)) = ''-5.0''"
    by (simp add: passRateChangeText_def passRateChange_def previousPassRate_def num_or_def
        toFixed1_def decimal_digits.simps digit_char_def fl_eval)
  have mem: "CHR ''+'' \<in> set (passRateChangeText d) \<longleftrightarrow> 0 < d"
    using plus_not_in_toFixed1 [of d] by (simp add: passRateChangeText_def)
  have hd_plus: "hd (passRateChangeText d) = CHR ''+'' \<longleftrightarrow> 0 < d"
  proof (cases "0 < d")
    case True
    then show ?thesis by (simp add: passRateChangeText_def)
  next
    case False
    then have "passRateChangeText d = toFixed1 d" by (simp add: passRateChangeText_def)
    then have "hd (passRateChangeText d) \<in> set (toFixed1 d)"
      using toFixed1_not_Nil [of d] by simp
    with False show ?thesis using plus_not_in_toFixed1 [of d] by auto
  qed
  obtain q r where qr: "r < 10"
      "toFixed1 d = (if d < 0 then ''-'' else []) @ decimal_digits q @ ''.'' @ [digit_char r]"
      "\<bar>real (10 * q + r) / 10 - \<bar>d\<bar>\<bar> \<le> 1 / 20"
    using toFixed1_shape [of d] by blast
  have "passRateChangeText d =
      (if 0 < d then ''+'' else if d < 0 then ''-'' else []) @ decimal_digits q @ ''.'' @ [digit_char r]"
    using qr(2) by (simp add: passRateChangeText_def)
  with qr(1,3) have shape: "\<exists>q r. r < 10
         \<and> passRateChangeText d =
             (if 0 < d then ''+'' else if d < 0 then ''-'' else []) @ decimal_digits q @ ''.'' @ [digit_char r]
         \<and> \<bar>real (10 * q + r) / 10 - \<bar>d\<bar>\<bar> \<le> 1 / 20" by blast
  show ?thesis using ex1 ex2 hd_plus mem shape by (intro conjI)
qed

text \<open>The two runs of the claim, on full metadata records.\<close>

theorem pass_rate_change_text_witness:
  "pass_rate (sample_metadata ''20240102-000000'' (Some 90)) = Some 90
   \<and> pass_rate (sample_metadata ''20240101-000000'' (Some 85)) = Some 85
   \<and> pass_rate (sample_metadata ''20240101-000000'' (Some 95)) = Some 95
   \<and> passRateChangeText (passRateChange (sample_metadata ''20240102-000000'' (Some 90))
        (Some (sample_metadata ''20240101-000000'' (Some 85)))) = ''+5.0''
   \<and> passRateChangeText (passRateChange (sample_metadata ''20240102-000000'' (Some 90))
        (Some (sample_metadata ''20240101-000000'' (Some 95)))) = ''-5.0''"
  using pass_rate_change_text [of "sample_metadata ''20240102-000000'' (Some 90)"
      "sample_metadata ''20240101-000000'' (Some 85)" 0]
    pass_rate_change_text [of "sample_metadata ''20240102-000000'' (Some 90)"
      "sample_metadata ''20240101-000000'' (Some 95)" 0]
  by (simp add: sample_metadata_def)

subsection \<open>Effects of a run\<close>

lemma call_without_key:
  "falsy (apiKey w) \<Longrightarrow> callAnthropicAPI w sp up = ([], Inl AuthError)"
  by (simp add: callAnthropicAPI_def)

lemma single_without_key:
  assumes "falsy (apiKey w)"
  shows "\<exists>e. analyzeSingleReport project opts cfg w = ([], Inl e)"
  using assms
  by (auto simp: analyzeSingleReport_def call_without_key Let_def
      split: option.splits node.splits metafile.splits sum.splits)

lemma trend_without_key:
  assumes "falsy (apiKey w)"
  shows "\<exists>e. analyzeTrend project opts cfg w = ([], Inl e)"
  using assms
  by (auto simp: analyzeTrend_def call_without_key Let_def split: option.splits)

lemma main_without_key:
  assumes "falsy (apiKey w)"
  shows "\<exists>e. main project type opts cfg w = ([], Inl e)"
  using single_without_key [OF assms] trend_without_key [OF assms]
  by (simp add: main_def)

lemma effects_ensureAnalysisDir:
  "e \<in> set (ensureAnalysisDir project w) \<Longrightarrow> \<not> isNetworkCall e \<and> \<not> isFileWrite e"
  by (auto simp: ensureAnalysisDir_def isNetworkCall_def isFileWrite_def split: if_splits)

lemma script_cases:
  "script opts w = ([], Inl UsageError) \<or> script opts w = ([], Inl ConfigError)
   \<or> (\<exists>project type cfg. opt_project opts = Some project \<and> opt_type opts = Some type
         \<and> project \<noteq> [] \<and> type \<noteq> [] \<and> promptsConfig w = Some cfg
         \<and> script opts w = (ensureAnalysisDir project w @ fst (main project type opts cfg w),
                             snd (main project type opts cfg w)))"
  by (auto simp: script_def Let_def split: option.splits prod.splits)

text \<open>
  Claim C7. Whenever the credential variable is unset (or empty), the client fails with an
  authentication error without sending anything, the script ends with exit code 1, and no
  network request is among its effects.
\<close>

theorem missing_credential_stops_before_request:
  assumes "falsy (apiKey w)"
  shows "callAnthropicAPI w systemPrompt userPrompt = ([], Inl AuthError)
       \<and> exitCode (script opts w) = 1
       \<and> (\<forall>e\<in>set (fst (script opts w)). \<not> isNetworkCall e)"
proof -
  have run: "exitCode (script opts w) = 1 \<and> (\<forall>e\<in>set (fst (script opts w)). \<not> isNetworkCall e)"
    using script_cases [of opts w]
  proof (elim disjE exE conjE)
    fix project type cfg
    assume s: "script opts w = (ensureAnalysisDir project w @ fst (main project type opts cfg w),
                             snd (main project type opts cfg w))"
    obtain e where e: "main project type opts cfg w = ([], Inl e)"
      using main_without_key [OF assms] by blast
    show ?thesis
      using s e effects_ensureAnalysisDir [of _ project w]
      by (auto simp: exitCode_def)
  qed (simp_all add: exitCode_def)
  then show ?thesis using call_without_key [OF assms] by simp
qed

text \<open>
  A single-report run without the credential: the only effect is the creation of the
  analysis directory.
\<close>

theorem missing_credential_stops_before_request_witness:
  "falsy (apiKey (sample_world None))
   \<and> exitCode (script (sample_options ''single'' (Some ''20240102-000000'')) (sample_world None)) = 1
   \<and> fst (script (sample_options ''single'' (Some ''20240102-000000'')) (sample_world None))
       = [Mkdir [''analysis'', ''qa-app'']]"
proof -
  have key: "falsy (apiKey (sample_world None))"
    by (simp add: sample_world_def falsy_def)
  have "fst (script (sample_options ''single'' (Some ''20240102-000000'')) (sample_world None))
       = [Mkdir [''analysis'', ''qa-app'']]"
    by (simp add: eval_simps Let_def)
  then show ?thesis
    using key missing_credential_stops_before_request [OF key, of "[]" "[]"
        "sample_options ''single'' (Some ''20240102-000000'')"]
    by simp
qed

text \<open>
  Claim C5, as amended. For every invocation whose type is neither \<^verbatim>\<open>single\<close> nor
  \<^verbatim>\<open>trend\<close>, the script ends with exit code 1 without any network call and without writing
  any file; its only possible effect is the creation of the directory
  \<^verbatim>\<open>analysis/{project}\<close>, when that directory is absent.
\<close>

theorem unknown_type_exits_after_mkdir_only:
  assumes "opt_type opts \<noteq> Some ''single''" and "opt_type opts \<noteq> Some ''trend''"
  shows "exitCode (script opts w) = 1
       \<and> (\<forall>e\<in>set (fst (script opts w)). \<not> isNetworkCall e \<and> \<not> isFileWrite e)
       \<and> (fst (script opts w) = []
          \<or> (\<exists>project. opt_project opts = Some project \<and> project \<notin> analysisDirs w
                \<and> fst (script opts w) = [Mkdir [ANALYSIS_DIR, project]]))"
  using script_cases [of opts w]
proof (elim disjE exE conjE)
  fix project type cfg
  assume p: "opt_project opts = Some project" and t: "opt_type opts = Some type"
    and s: "script opts w = (ensureAnalysisDir project w @ fst (main project type opts cfg w),
                             snd (main project type opts cfg w))"
  have "main project type opts cfg w = ([], Inl UnknownType)"
    using assms t by (simp add: main_def)
  with s have "script opts w = (ensureAnalysisDir project w, Inl UnknownType)" by simp
  then show ?thesis
    using p by (simp add: exitCode_def ensureAnalysisDir_def isNetworkCall_def isFileWrite_def)
qed (simp_all add: exitCode_def)

text \<open>An invocation with the type \<^verbatim>\<open>weekly\<close>.\<close>

theorem unknown_type_exits_after_mkdir_only_witness:
  "opt_type (sample_options ''weekly'' None) \<noteq> Some ''single''
   \<and> opt_type (sample_options ''weekly'' None) \<noteq> Some ''trend''
   \<and> exitCode (script (sample_options ''weekly'' None) (sample_world (Some ''key''))) = 1"
  using unknown_type_exits_after_mkdir_only [of "sample_options ''weekly'' None" "sample_world (Some ''key'')"]
  by (simp add: sample_options_def)

text \<open>
  Claim C5 as stated fails: with the type \<^verbatim>\<open>weekly\<close> and no directory
  \<^verbatim>\<open>analysis/qa-app\<close> yet, the script creates that directory before it rejects the type.
\<close>

theorem unknown_type_creates_directory_counterexample:
  "opt_type (sample_options ''weekly'' None) \<noteq> Some ''single''
   \<and> opt_type (sample_options ''weekly'' None) \<noteq> Some ''trend''
   \<and> script (sample_options ''weekly'' None) (sample_world (Some ''key''))
       = ([Mkdir [''analysis'', ''qa-app'']], Inl UnknownType)
   \<and> isMkdir (hd (fst (script (sample_options ''weekly'' None) (sample_world (Some ''key'')))))"
  by (simp add: eval_simps isMkdir_def Let_def)

subsection \<open>The window of a trend analysis\<close>

lemma reportDate_midnight:
  assumes "reportDate r = Some t"
  shows "t mod msPerDay = 0"
  using assms by (auto simp: reportDate_def newDate_def Let_def split: if_splits)

lemma cutoffDate_value:
  assumes "cutoffDate nowMs pd = Some c"
  shows "c = nowMs - pd * msPerDay"
  using assms by (auto simp: cutoffDate_def timeClip_def msPerDay_def split: if_splits)

lemma in_recentReports:
  "r \<in> set (recentReports nowMs pd rs)
     \<longleftrightarrow> r \<in> set rs \<and> date_ge (reportDate r) (cutoffDate nowMs pd)"
  by (simp add: recentReports_def)

lemma msPerDay_pos: "0 < msPerDay"
  by (simp add: msPerDay_def)

lemma day_compare:
  assumes "t mod msPerDay = 0"
  shows "(t div msPerDay = c div msPerDay \<longrightarrow> (c \<le> t \<longleftrightarrow> c mod msPerDay = 0))
       \<and> (c div msPerDay < t div msPerDay \<longrightarrow> c \<le> t)
       \<and> (t div msPerDay < c div msPerDay \<longrightarrow> \<not> c \<le> t)"
proof -
  have "t = t div msPerDay * msPerDay + t mod msPerDay" by (rule div_mult_mod_eq [symmetric])
  then have t: "t = t div msPerDay * msPerDay" using assms by simp
  have c: "c = c div msPerDay * msPerDay + c mod msPerDay" by (rule div_mult_mod_eq [symmetric])
  have r0: "0 \<le> c mod msPerDay" and r1: "c mod msPerDay < msPerDay"
    using msPerDay_pos by simp_all
  show ?thesis
  proof (intro conjI impI)
    assume "t div msPerDay = c div msPerDay"
    then have "t = c div msPerDay * msPerDay" using t by simp
    then show "c \<le> t \<longleftrightarrow> c mod msPerDay = 0" using c r0 by linarith
  next
    assume lt: "c div msPerDay < t div msPerDay"
    then have "c div msPerDay + 1 \<le> t div msPerDay" by simp
    then have "(c div msPerDay + 1) * msPerDay \<le> t div msPerDay * msPerDay"
      using msPerDay_pos by (simp only: mult_right_mono less_imp_le)
    then have "c div msPerDay * msPerDay + msPerDay \<le> t" using t by (simp add: algebra_simps)
    then show "c \<le> t" using c r1 by linarith
  next
    assume lt: "t div msPerDay < c div msPerDay"
    then have "t div msPerDay + 1 \<le> c div msPerDay" by simp
    then have "(t div msPerDay + 1) * msPerDay \<le> c div msPerDay * msPerDay"
      using msPerDay_pos by (simp only: mult_right_mono less_imp_le)
    then have "t + msPerDay \<le> c div msPerDay * msPerDay" using t by (simp add: algebra_simps)
    then show "\<not> c \<le> t" using c r0 msPerDay_pos by linarith
  qed
qed

text \<open>
  Claim C3, as amended. A record is kept when midnight UTC of the day in its timestamp is
  not before the instant \<open>now - period \<times> 24h\<close>; the time of day is dropped on the
  record's side only. So a record dated on the boundary day (the day of that instant) is
  kept exactly when \<open>now\<close> is itself midnight UTC; records of later days are kept and
  records of earlier days are dropped.
\<close>

theorem boundary_day_kept_only_at_midnight:
  assumes "r \<in> set allReports"
    and "reportDate r = Some t"
    and "cutoffDate nowMs pd = Some c"
  shows "(t div msPerDay = c div msPerDay
            \<longrightarrow> (r \<in> set (recentReports nowMs pd allReports) \<longleftrightarrow> nowMs mod msPerDay = 0))
       \<and> (c div msPerDay < t div msPerDay \<longrightarrow> r \<in> set (recentReports nowMs pd allReports))
       \<and> (t div msPerDay < c div msPerDay \<longrightarrow> r \<notin> set (recentReports nowMs pd allReports))"
proof -
  have mem: "r \<in> set (recentReports nowMs pd allReports) \<longleftrightarrow> c \<le> t"
    using assms by (simp add: in_recentReports date_ge_def)
  have "c = nowMs - pd * msPerDay" using assms(3) by (rule cutoffDate_value)
  then have "c = nowMs + (- pd) * msPerDay" by simp
  then have cmod: "c mod msPerDay = nowMs mod msPerDay" by (simp only: mod_mult_self1)
  show ?thesis
    using day_compare [OF reportDate_midnight [OF assms(2)], of c]
    by (simp only: mem cmod)
qed

text \<open>
  At 2024-01-08T00:00:00Z with a period of 7 days, the record of 1 January 2024 is kept.
\<close>

theorem boundary_day_kept_only_at_midnight_witness:
  "sample_metadata ''20240101-120000'' (Some 90) \<in> set [sample_metadata ''20240101-120000'' (Some 90)]
   \<and> reportDate (sample_metadata ''20240101-120000'' (Some 90)) = Some 1704067200000
   \<and> cutoffDate 1704672000000 7 = Some 1704067200000
   \<and> sample_metadata ''20240101-120000'' (Some 90)
        \<in> set (recentReports 1704672000000 7 [sample_metadata ''20240101-120000'' (Some 90)])"
proof -
  have d: "reportDate (sample_metadata ''20240101-120000'' (Some 90)) = Some 1704067200000"
    by (simp add: sample_metadata_def reportDate_def newDate_def is_digit_def int_of_digits_def
        digit_val_def days_from_civil_def msPerDay_def Let_def)
  have c: "cutoffDate 1704672000000 7 = Some 1704067200000"
    by (simp add: cutoffDate_def timeClip_def)
  have m: "sample_metadata ''20240101-120000'' (Some 90) \<in> set [sample_metadata ''20240101-120000'' (Some 90)]"
    by simp
  show ?thesis
    using boundary_day_kept_only_at_midnight [OF m d c] d c by (simp add: msPerDay_def)
qed

text \<open>
  Claim C3 as stated fails: at 2024-01-08T12:00:00Z with a period of 7 days the boundary
  day is 1 January 2024, and the record \<^verbatim>\<open>20240101-120000\<close> is dropped from the window.
\<close>

theorem boundary_day_dropped_counterexample:
  "reportDate (sample_metadata ''20240101-120000'' (Some 90)) = Some 1704067200000
   \<and> cutoffDate 1704715200000 7 = Some 1704110400000
   \<and> 1704067200000 div msPerDay = 1704110400000 div msPerDay
   \<and> recentReports 1704715200000 7 [sample_metadata ''20240101-120000'' (Some 90)] = []"
  by (simp add: sample_metadata_def reportDate_def newDate_def is_digit_def int_of_digits_def
      digit_val_def days_from_civil_def msPerDay_def Let_def cutoffDate_def timeClip_def
      recentReports_def date_ge_def)

subsection \<open>Rendering of a prompt\<close>

lemma getSubstitution_literal:
  "CHR ''$'' \<notin> set rep \<Longrightarrow> getSubstitution matched preceding following rep = rep"
  by (induction matched preceding following rep rule: getSubstitution.induct) auto

lemma find_sub_first:
  assumes "\<forall>j<length pre. take (length pat) (drop j (pre @ pat @ post)) \<noteq> pat"
  shows "find_sub pat (pre @ pat @ post) = Some (length pre)"
  using assms
proof (induction pre)
  case Nil
  have tk: "take (length pat) (pat @ post) = pat" by simp
  show ?case
  proof (cases "pat @ post")
    case Nil
    then show ?thesis by simp
  next
    case (Cons a l)
    have "take (length pat) (a # l) = pat" using tk by (simp only: Cons)
    then have "find_sub pat (a # l) = Some 0" by simp
    then show ?thesis by (simp add: Cons)
  qed
next
  case (Cons c pre)
  have here: "take (length pat) (c # pre @ pat @ post) \<noteq> pat"
    using Cons.prems by (metis append_Cons drop0 length_greater_0_conv list.distinct(1))
  have "\<forall>j<length pre. take (length pat) (drop j (pre @ pat @ post)) \<noteq> pat"
  proof (intro allI impI)
    fix j assume "j < length pre"
    then have "Suc j < length (c # pre)" by simp
    then have "take (length pat) (drop (Suc j) ((c # pre) @ pat @ post)) \<noteq> pat"
      using Cons.prems by blast
    then show "take (length pat) (drop j (pre @ pat @ post)) \<noteq> pat" by simp
  qed
  then have "find_sub pat (pre @ pat @ post) = Some (length pre)" by (rule Cons.IH)
  with here show ?case by simp
qed

text \<open>
  Claim C4, as amended. Each substitution of the renderer replaces the first occurrence of
  its placeholder only: when the placeholder does not start anywhere before the end of
  \<open>pre\<close>, the text \<open>pre @ pat @ post\<close> becomes \<open>pre @ rep @ post\<close>, every later
  occurrence in \<open>post\<close> staying as it is (a value without a dollar sign is inserted
  literally), and the rest of the chain goes on from that text. The rendering is a function
  of the template and the values; it has no effect.
\<close>

theorem replace_first_occurrence_only:
  assumes "\<forall>j<length pre. take (length pat) (drop j (pre @ pat @ post)) \<noteq> pat"
    and "CHR ''$'' \<notin> set rep"
  shows "js_replace (pre @ pat @ post) pat rep = pre @ rep @ post
       \<and> replace_chain (pre @ pat @ post) ((pat, rep) # kvs) = replace_chain (pre @ rep @ post) kvs"
proof -
  have "js_replace (pre @ pat @ post) pat rep = pre @ rep @ post"
    by (simp add: js_replace_def find_sub_first [OF assms(1)] getSubstitution_literal [OF assms(2)])
  then show ?thesis by (simp add: replace_chain_def)
qed

text \<open>A template that names the project twice.\<close>

theorem replace_first_occurrence_only_witness:
  "CHR ''$'' \<notin> set ''qa-app''
   \<and> js_replace ''Report for {project}: {project}'' ''{project}'' ''qa-app''
       = ''Report for qa-app: {project}''"
proof -
  have first: "\<forall>j<length ''Report for ''.
       take (length ''{project}'') (drop j (''Report for '' @ ''{project}'' @ '': {project}'')) \<noteq> ''{project}''"
    by (simp add: All_less_Suc2 numeral_eq_Suc)
  have lit: "CHR ''$'' \<notin> set ''qa-app''" by simp
  show ?thesis
    using lit replace_first_occurrence_only [OF first lit, of "[]"] by simp
qed

text \<open>
  Claim C4 as stated fails: in the single-report prompt a second \<^verbatim>\<open>{project}\<close> of the
  template is left in place.
\<close>

theorem second_occurrence_kept_counterexample:
  "singleUserPrompt ''{project}: {project}'' ''qa-app'' ''20240102-000000''
       (sample_metadata ''20240102-000000'' (Some 90)) None
     = ''qa-app: {project}''"
  by (simp add: eval_simps Let_def)

subsection \<open>Enumeration of the reports\<close>

lemma nonNull_append: "nonNull (xs @ ys) = nonNull xs @ nonNull ys"
  by (induction xs rule: nonNull.induct) simp_all

lemma isDirectory_simps:
  "isDirectory RegularFile = False" "isDirectory (Directory f) = True"
  by (simp_all add: isDirectory_def)

lemma readMetadata_simps:
  "readMetadata RegularFile = None" "readMetadata (Directory Missing) = None"
  "readMetadata (Directory Unparseable) = None" "readMetadata (Directory (Parsed m)) = Some m"
  by (simp_all add: readMetadata_def)

lemma length_nonNull_readMetadata:
  "length (nonNull (map (\<lambda>(name, n). readMetadata n) (filter (\<lambda>(name, n). isDirectory n) entries)))
     = length (filter (\<lambda>(name, n). readMetadata n \<noteq> None) entries)"
proof (induction entries)
  case Nil
  show ?case by simp
next
  case (Cons e entries)
  obtain name n where e: "e = (name, n)" by (cases e)
  show ?case
  proof (cases n)
    case RegularFile
    then show ?thesis using Cons e by (simp add: isDirectory_simps readMetadata_simps)
  next
    case (Directory f)
    then show ?thesis using Cons e by (cases f) (simp_all add: isDirectory_simps readMetadata_simps)
  qed
qed

lemma length_loadAllReports:
  "length (loadAllReports entries) = length (filter (\<lambda>(name, n). readMetadata n \<noteq> None) entries)"
  by (simp add: loadAllReports_def length_nonNull_readMetadata)

lemma loadAllReports_not_Nil:
  assumes "(name, Directory (Parsed m)) \<in> set entries"
  shows "loadAllReports entries \<noteq> []"
proof -
  have "(name, Directory (Parsed m)) \<in> set (filter (\<lambda>(name, n). readMetadata n \<noteq> None) entries)"
    using assms by (simp add: readMetadata_simps)
  then have "filter (\<lambda>(name, n). readMetadata n \<noteq> None) entries \<noteq> []"
    by (metis empty_iff list.set(1))
  then have "0 < length (filter (\<lambda>(name, n). readMetadata n \<noteq> None) entries)"
    by simp
  then show ?thesis by (simp only: length_loadAllReports [symmetric]) simp
qed

lemma analyzeTrend_results:
  assumes "reports w project = Some entries" and "loadAllReports entries \<noteq> []"
  shows "snd (analyzeTrend project opts cfg w)
           \<in> {Inl EmptyWindow, Inl AuthError, Inl NetworkError, Inl UpstreamError, Inl ParseError, Inr ()}"
  using assms
  by (auto simp: analyzeTrend_def callAnthropicAPI_def Let_def
      split: option.splits api_reply.splits sum.splits if_splits)

text \<open>
  Claim C9. In the enumeration of a trend analysis, a report directory whose
  \<^verbatim>\<open>metadata.json\<close> is missing or does not parse contributes nothing: removing it from the
  listing leaves the result unchanged, and the result has one record per directory with a
  parsed file. A directory with one valid and one corrupt file, in either order, yields
  exactly the valid record, and as soon as one file parses the analysis does not stop at
  the enumeration: it can only end on an empty window, on a failure of the client, or well.
\<close>

theorem unreadable_metadata_skipped:
  "loadAllReports (xs @ (name, Directory Unparseable) # ys) = loadAllReports (xs @ ys)
   \<and> loadAllReports (xs @ (name, Directory Missing) # ys) = loadAllReports (xs @ ys)
   \<and> length (loadAllReports entries) = length (filter (\<lambda>(name, n). readMetadata n \<noteq> None) entries)
   \<and> loadAllReports [(a, Directory (Parsed m)), (b, Directory Unparseable)] = [m]
   \<and> loadAllReports [(b, Directory Unparseable), (a, Directory (Parsed m))] = [m]
   \<and> (reports w project = Some entries \<and> (a, Directory (Parsed m)) \<in> set entries
        \<longrightarrow> snd (analyzeTrend project opts cfg w)
              \<in> {Inl EmptyWindow, Inl AuthError, Inl NetworkError, Inl UpstreamError, Inl ParseError, Inr ()})"
proof -
  have skip: "loadAllReports (xs @ (name, Directory f) # ys) = loadAllReports (xs @ ys)"
    if "f = Unparseable \<or> f = Missing" for f
    using that by (auto simp: loadAllReports_def nonNull_append readMetadata_simps isDirectory_simps)
  have one: "loadAllReports [(a, Directory (Parsed m)), (b, Directory Unparseable)] = [m]"
    and two: "loadAllReports [(b, Directory Unparseable), (a, Directory (Parsed m))] = [m]"
    by (simp_all add: loadAllReports_def readMetadata_simps isDirectory_simps)
  have run: "reports w project = Some entries \<and> (a, Directory (Parsed m)) \<in> set entries
        \<longrightarrow> snd (analyzeTrend project opts cfg w)
              \<in> {Inl EmptyWindow, Inl AuthError, Inl NetworkError, Inl UpstreamError, Inl ParseError, Inr ()}"
    using analyzeTrend_results loadAllReports_not_Nil by blast
  show ?thesis
    using skip [of Unparseable] skip [of Missing] length_loadAllReports [of entries] one two run
    by (intro conjI) simp_all
qed


lemma window_one_record:
  "recentReports 1704196800000 30 [sample_metadata ''20240102-000000'' (Some 90)]
     = [sample_metadata ''20240102-000000'' (Some 90)]"
  by (simp add: sample_metadata_def recentReports_def reportDate_def newDate_def is_digit_def
      int_of_digits_def digit_val_def days_from_civil_def msPerDay_def Let_def cutoffDate_def
      timeClip_def date_ge_def)

lemma statistics_one_record:
  "avgPassRate [90] = 90" "medianPassRate [90] = 90" "stdDev [90] = 0"
  "maxPassRate [90] = 90" "minPassRate [90] = 90"
  by (simp_all add: avgPassRate_def medianPassRate_def sortedRates_def stdDev_def variance_def
      fl_eval)

lemma prompt_one_record:
  "trendUserPrompt
     ''{project}, {period_days} days, {total_runs} runs: avg {avg_pass_rate}, median {median_pass_rate}''
     ''qa-app'' 30 [sample_metadata ''20240102-000000'' (Some 90)]
   = ''qa-app, 30 days, 1 runs: avg 90.0, median 90.0''"
  apply (simp add: trendUserPrompt_def sample_metadata_def rate_def num_or_def
      statistics_one_record Let_def)
  apply (simp add: replace_chain_def js_replace_def toFixed1_def decimal_digits.simps
      digit_char_def number_to_string_def Let_def)
  done

text \<open>
  A trend analysis over a project with one corrupt and one valid file runs to its end on the
  one valid record.
\<close>

theorem unreadable_metadata_skipped_witness:
  "loadAllReports corrupt_listing = [sample_metadata ''20240102-000000'' (Some 90)]
   \<and> script (sample_options ''trend'' None)
        ((sample_world (Some ''key''))\<lparr>reports := [''qa-app'' \<mapsto> corrupt_listing]\<rparr>)
      = ([Mkdir [''analysis'', ''qa-app''],
          HttpsRequest ''You review a test history.''
            ''qa-app, 30 days, 1 runs: avg 90.0, median 90.0'',
          WriteFile [''analysis'', ''qa-app'', ''trend-analysis.md'']],
         Inr ())"
proof -
  have l: "loadAllReports corrupt_listing = [sample_metadata ''20240102-000000'' (Some 90)]"
    using unreadable_metadata_skipped [of "[]" "[]" "[]" "[]" "''20240102-000000''"
        "sample_metadata ''20240102-000000'' (Some 90)" "''20240101-000000''"
        "sample_world None" "''qa-app''" "sample_options ''trend'' None" sample_prompts]
    by (simp add: corrupt_listing_def)
  have s: "script (sample_options ''trend'' None)
        ((sample_world (Some ''key''))\<lparr>reports := [''qa-app'' \<mapsto> corrupt_listing]\<rparr>)
      = ([Mkdir [''analysis'', ''qa-app''],
          HttpsRequest ''You review a test history.''
            ''qa-app, 30 days, 1 runs: avg 90.0, median 90.0'',
          WriteFile [''analysis'', ''qa-app'', ''trend-analysis.md'']],
         Inr ())"
    by (simp add: script_def main_def analyzeTrend_def sample_options_def sample_world_def
        sample_prompts_def l window_one_record prompt_one_record periodDays_def int_or_def
        callAnthropicAPI_def falsy_def ensureAnalysisDir_def ANALYSIS_DIR_def Let_def)
  show ?thesis using l s by simp
qed

subsection \<open>Records without a pass rate\<close>

lemma absentAsZero_fields:
  "timestamp (absentAsZero r) = timestamp r"
  "run_number (absentAsZero r) = run_number r"
  "branch (absentAsZero r) = branch r"
  "total_tests (absentAsZero r) = total_tests r"
  "passed (absentAsZero r) = passed r"
  "failed (absentAsZero r) = failed r"
  "failed_tests (absentAsZero r) = failed_tests r"
  "num_or (pass_rate (absentAsZero r)) 0 = num_or (pass_rate r) 0"
  by (simp_all add: absentAsZero_def num_or_def split: option.splits)

lemma rate_absentAsZero: "rate (absentAsZero r) = rate r"
  by (simp add: rate_def absentAsZero_fields)

lemma map_rate_absentAsZero: "map rate (map absentAsZero rs) = map rate rs"
  by (simp add: rate_absentAsZero)

lemma reportDate_absentAsZero: "reportDate (absentAsZero r) = reportDate r"
  by (simp add: reportDate_def absentAsZero_fields)

lemma previousPassRate_absentAsZero:
  "previousPassRate (map_option absentAsZero pm) = previousPassRate pm"
  by (cases pm) (simp_all add: previousPassRate_def absentAsZero_fields)

lemma passRateChange_absentAsZero:
  "passRateChange (absentAsZero m) (map_option absentAsZero pm) = passRateChange m pm"
  by (simp add: passRateChange_def previousPassRate_absentAsZero absentAsZero_fields)

lemma failedTestsDetails_absentAsZero: "failedTestsDetails (absentAsZero m) = failedTestsDetails m"
  by (simp add: failedTestsDetails_def absentAsZero_fields split: option.splits)

lemma singleUserPrompt_absentAsZero:
  "singleUserPrompt t p ts (absentAsZero m) (map_option absentAsZero pm) = singleUserPrompt t p ts m pm"
  by (simp add: singleUserPrompt_def absentAsZero_fields previousPassRate_absentAsZero
      passRateChange_absentAsZero failedTestsDetails_absentAsZero)

lemma find_map_option: "find P (map f xs) = map_option f (find (\<lambda>x. P (f x)) xs)"
  by (induction xs) simp_all

lemma maxReport_absentAsZero:
  "maxReport (map absentAsZero rs) = map_option absentAsZero (maxReport rs)"
  by (simp add: maxReport_def find_map_option rate_absentAsZero o_def)

lemma minReport_absentAsZero:
  "minReport (map absentAsZero rs) = map_option absentAsZero (minReport rs)"
  by (simp add: minReport_def find_map_option rate_absentAsZero o_def)

lemma historicalData_absentAsZero: "historicalData (map absentAsZero rs) = historicalData rs"
  by (simp add: historicalData_def absentAsZero_fields rate_absentAsZero o_def)

lemma trendUserPrompt_absentAsZero:
  "trendUserPrompt t p pd (map absentAsZero rs) = trendUserPrompt t p pd rs"
proof -
  have mx: "(case maxReport (map absentAsZero rs) of Some r \<Rightarrow> timestamp r | None \<Rightarrow> ''N/A'')
      = (case maxReport rs of Some r \<Rightarrow> timestamp r | None \<Rightarrow> ''N/A'')"
    by (cases "maxReport rs") (simp_all add: maxReport_absentAsZero absentAsZero_fields)
  have mn: "(case minReport (map absentAsZero rs) of Some r \<Rightarrow> timestamp r | None \<Rightarrow> ''N/A'')
      = (case minReport rs of Some r \<Rightarrow> timestamp r | None \<Rightarrow> ''N/A'')"
    by (cases "minReport rs") (simp_all add: minReport_absentAsZero absentAsZero_fields)
  show ?thesis
    unfolding trendUserPrompt_def Let_def mx mn historicalData_absentAsZero map_rate_absentAsZero
    by simp
qed

lemma world_absentAsZero:
  "apiKey (absentAsZeroWorld w) = apiKey w"
  "apiReply (absentAsZeroWorld w) = apiReply w"
  "now (absentAsZeroWorld w) = now w"
  "analysisDirs (absentAsZeroWorld w) = analysisDirs w"
  "promptsConfig (absentAsZeroWorld w) = promptsConfig w"
  "reports (absentAsZeroWorld w) project = map_option absentAsZeroListing (reports w project)"
  by (simp_all add: absentAsZeroWorld_def)

lemma callAnthropicAPI_absentAsZero:
  "callAnthropicAPI (absentAsZeroWorld w) sp up = callAnthropicAPI w sp up"
  by (simp add: callAnthropicAPI_def world_absentAsZero)

lemma ensureAnalysisDir_absentAsZero:
  "ensureAnalysisDir project (absentAsZeroWorld w) = ensureAnalysisDir project w"
  by (simp add: ensureAnalysisDir_def world_absentAsZero)

lemma absentAsZeroNode_simps:
  "absentAsZeroNode RegularFile = RegularFile"
  "absentAsZeroNode (Directory Missing) = Directory Missing"
  "absentAsZeroNode (Directory Unparseable) = Directory Unparseable"
  "absentAsZeroNode (Directory (Parsed m)) = Directory (Parsed (absentAsZero m))"
  by (simp_all add: absentAsZeroNode_def)

lemma isDirectory_absentAsZero: "isDirectory (absentAsZeroNode n) = isDirectory n"
  by (cases n) (simp_all add: absentAsZeroNode_def isDirectory_def split: metafile.splits)

lemma readMetadata_absentAsZero:
  "readMetadata (absentAsZeroNode n) = map_option absentAsZero (readMetadata n)"
proof (cases n)
  case RegularFile
  then show ?thesis by (simp add: absentAsZeroNode_simps readMetadata_simps)
next
  case (Directory f)
  then show ?thesis by (cases f) (simp_all add: absentAsZeroNode_simps readMetadata_simps)
qed

lemma map_of_absentAsZero:
  "map_of (absentAsZeroListing entries) ts = map_option absentAsZeroNode (map_of entries ts)"
  by (induction entries) (auto simp: absentAsZeroListing_def)

lemma directories_absentAsZero:
  "map fst (filter (\<lambda>(name, n). isDirectory n) (absentAsZeroListing entries))
     = map fst (filter (\<lambda>(name, n). isDirectory n) entries)"
  by (induction entries) (auto simp: absentAsZeroListing_def isDirectory_absentAsZero)

lemma allReportNames_absentAsZero:
  "allReportNames (absentAsZeroListing entries) = allReportNames entries"
  by (simp add: allReportNames_def directories_absentAsZero)

lemma previousMetadata_absentAsZero:
  "previousMetadata (absentAsZeroListing entries) ts =
     (case previousMetadata entries ts of
        Inl e \<Rightarrow> Inl e
      | Inr pm \<Rightarrow> Inr (map_option absentAsZero pm))"
  by (simp add: previousMetadata_def allReportNames_absentAsZero map_of_absentAsZero
      absentAsZeroNode_simps Let_def split: option.splits node.splits metafile.splits)

lemma analyzeSingleReport_absentAsZero:
  "analyzeSingleReport project opts cfg (absentAsZeroWorld w) = analyzeSingleReport project opts cfg w"
  by (simp add: analyzeSingleReport_def world_absentAsZero map_of_absentAsZero
      previousMetadata_absentAsZero absentAsZeroNode_simps singleUserPrompt_absentAsZero
      callAnthropicAPI_absentAsZero Let_def
      split: option.splits node.splits metafile.splits sum.splits)

lemma insort_key_absentAsZero:
  "insort_key timestamp (absentAsZero x) (map absentAsZero xs)
     = map absentAsZero (insort_key timestamp x xs)"
  by (induction xs) (simp_all add: absentAsZero_fields)

lemma sort_key_absentAsZero:
  "sort_key timestamp (map absentAsZero xs) = map absentAsZero (sort_key timestamp xs)"
  by (induction xs) (simp_all add: insort_key_absentAsZero)

lemma nonNull_map_option: "nonNull (map (map_option f) ms) = map f (nonNull ms)"
  by (induction ms rule: nonNull.induct) simp_all

lemma parsed_absentAsZero:
  "map (\<lambda>(name, n). readMetadata n) (filter (\<lambda>(name, n). isDirectory n) (absentAsZeroListing entries))
     = map (map_option absentAsZero)
         (map (\<lambda>(name, n). readMetadata n) (filter (\<lambda>(name, n). isDirectory n) entries))"
  by (induction entries)
     (auto simp: absentAsZeroListing_def isDirectory_absentAsZero readMetadata_absentAsZero)

lemma loadAllReports_absentAsZero:
  "loadAllReports (absentAsZeroListing entries) = map absentAsZero (loadAllReports entries)"
  by (simp only: loadAllReports_def parsed_absentAsZero nonNull_map_option sort_key_absentAsZero)

lemma recentReports_absentAsZero:
  "recentReports nowMs pd (map absentAsZero rs) = map absentAsZero (recentReports nowMs pd rs)"
  by (simp add: recentReports_def filter_map o_def reportDate_absentAsZero)

lemma analyzeTrend_absentAsZero:
  "analyzeTrend project opts cfg (absentAsZeroWorld w) = analyzeTrend project opts cfg w"
  by (simp add: analyzeTrend_def world_absentAsZero loadAllReports_absentAsZero
      recentReports_absentAsZero trendUserPrompt_absentAsZero callAnthropicAPI_absentAsZero
      Let_def split: option.splits)

lemma main_absentAsZero:
  "main project type opts cfg (absentAsZeroWorld w) = main project type opts cfg w"
  by (simp add: main_def analyzeSingleReport_absentAsZero analyzeTrend_absentAsZero)

lemma script_absentAsZero: "script opts (absentAsZeroWorld w) = script opts w"
  by (simp add: script_def world_absentAsZero main_absentAsZero ensureAnalysisDir_absentAsZero
      split: option.splits)

text \<open>
  Claim C10. A record without the \<^verbatim>\<open>pass_rate\<close> field has rate 0, and everything the script
  computes is the same as with the field present and equal to 0: the list of rates of a
  window (hence its average, median, deviation, maximum and minimum), the records chosen
  for the maximum and the minimum, the pass-rate change of a single report, both rendered
  prompts, and the run of the whole script (its effects and the way it ends), which
  therefore never stops on the missing field.
\<close>

theorem absent_pass_rate_counts_as_zero:
  "(pass_rate r = None \<longrightarrow> rate r = 0 \<and> pass_rate (absentAsZero r) = Some 0)
   \<and> (pass_rate r \<noteq> None \<longrightarrow> absentAsZero r = r)
   \<and> map rate (map absentAsZero rs) = map rate rs
   \<and> maxReport (map absentAsZero rs) = map_option absentAsZero (maxReport rs)
   \<and> minReport (map absentAsZero rs) = map_option absentAsZero (minReport rs)
   \<and> passRateChange (absentAsZero m) (map_option absentAsZero pm) = passRateChange m pm
   \<and> singleUserPrompt t p ts (absentAsZero m) (map_option absentAsZero pm)
       = singleUserPrompt t p ts m pm
   \<and> trendUserPrompt t p pd (map absentAsZero rs) = trendUserPrompt t p pd rs
   \<and> script opts (absentAsZeroWorld w) = script opts w"
proof -
  have a: "pass_rate r = None \<longrightarrow> rate r = 0 \<and> pass_rate (absentAsZero r) = Some 0"
    by (simp add: rate_def num_or_def absentAsZero_def)
  have b: "pass_rate r \<noteq> None \<longrightarrow> absentAsZero r = r"
    by (auto simp: absentAsZero_def)
  show ?thesis
    using a b map_rate_absentAsZero [of rs] maxReport_absentAsZero [of rs]
      minReport_absentAsZero [of rs] passRateChange_absentAsZero [of m pm]
      singleUserPrompt_absentAsZero [of t p ts m pm] trendUserPrompt_absentAsZero [of t p pd rs]
      script_absentAsZero [of opts w]
    by (intro conjI)
qed

text \<open>
  A single-report analysis of a run without \<^verbatim>\<open>pass_rate\<close> goes through and reports 0.0.
\<close>

theorem absent_pass_rate_counts_as_zero_witness:
  "pass_rate (sample_metadata ''20240102-000000'' None) = None
   \<and> rate (sample_metadata ''20240102-000000'' None) = 0
   \<and> script (sample_options ''single'' (Some ''20240102-000000''))
        ((sample_world (Some ''key''))\<lparr>reports := [''qa-app'' \<mapsto> absent_listing]\<rparr>)
      = ([Mkdir [''analysis'', ''qa-app''],
          HttpsRequest ''You review one test run.''
            ''qa-app 20240102-000000: 0.0% (was 0.0%, 0.0)'',
          WriteFile [''analysis'', ''qa-app'', ''latest-analysis.md''],
          WriteFile [''analysis'', ''qa-app'', ''insights.json'']],
         Inr ())"
proof -
  have absent: "pass_rate (sample_metadata ''20240102-000000'' None) = None"
    by (simp add: sample_metadata_def)
  have run: "script (sample_options ''single'' (Some ''20240102-000000''))
        ((sample_world (Some ''key''))\<lparr>reports := [''qa-app'' \<mapsto> absent_listing]\<rparr>)
      = ([Mkdir [''analysis'', ''qa-app''],
          HttpsRequest ''You review one test run.''
            ''qa-app 20240102-000000: 0.0% (was 0.0%, 0.0)'',
          WriteFile [''analysis'', ''qa-app'', ''latest-analysis.md''],
          WriteFile [''analysis'', ''qa-app'', ''insights.json'']],
         Inr ())"
    by (simp add: eval_simps absent_listing_def Let_def)
  show ?thesis
    using absent run
      absent_pass_rate_counts_as_zero [of "sample_metadata ''20240102-000000'' None" "[]"
        "sample_metadata ''20240102-000000'' None" None "[]" "[]" "[]" 30
        "sample_options ''single'' (Some ''20240102-000000'')" "sample_world (Some ''key'')"]
    by simp
qed

end
